theory Spec2Isabelle
  imports Complex_Main "HOL-Library.Char_ord" "HOL-Library.List_Lexorder"
begin

section \<open>Strings of the source language\<close>

text \<open>
  A Python \<open>str\<close> is modelled as a \<^typ>\<open>string\<close>; each \<^typ>\<open>char\<close> stands for the code
  point of the same number, so the model covers the strings over code points 0 to 255.
  On that range \<open>str.isspace\<close> holds for 9 to 13, 28 to 32, 133 and 160, and \<open>str.lower\<close>
  adds 32 to the code points 65 to 90, 192 to 214 and 216 to 222 and leaves the others.
  \<open>len\<close> counts code points, as \<^const>\<open>length\<close> counts the chars.
\<close>

definition isspace :: "char \<Rightarrow> bool" where
  "isspace c =
     (let n = (of_char c :: nat)
      in (9 \<le> n \<and> n \<le> 13) \<or> (28 \<le> n \<and> n \<le> 32) \<or> n = 133 \<or> n = 160)"

definition lstrip :: "string \<Rightarrow> string" where
  "lstrip s = dropWhile isspace s"

definition rstrip :: "string \<Rightarrow> string" where
  "rstrip s = rev (dropWhile isspace (rev s))"

definition strip :: "string \<Rightarrow> string" where
  "strip s = lstrip (rstrip s)"

definition lower_char :: "char \<Rightarrow> char" where
  "lower_char c =
     (let n = (of_char c :: nat)
      in if (65 \<le> n \<and> n \<le> 90) \<or> (192 \<le> n \<and> n \<le> 214) \<or> (216 \<le> n \<and> n \<le> 222)
         then char_of (n + 32) else c)"

definition lower :: "string \<Rightarrow> string" where
  "lower s = map lower_char s"

text \<open>\<open>sep.join(xs)\<close>.\<close>

fun join :: "string \<Rightarrow> string list \<Rightarrow> string" where
  "join sep [] = []"
| "join sep [x] = x"
| "join sep (x # y # ys) = x @ sep @ join sep (y # ys)"

section \<open>Numbers of the source language\<close>

text \<open>
  A Python \<open>int\<close> is an \<^typ>\<open>int\<close>. A Python \<open>float\<close> is compared only, never computed
  with: every finite float is a rational number and the comparison of two floats is the
  comparison of their values, so a float is a rational or one of the two infinities,
  ordered as Python orders them. The value \<open>nan\<close> is left out of the model.
\<close>

datatype pyfloat = NegInf | Fin rat | PosInf

fun float_lt :: "pyfloat \<Rightarrow> pyfloat \<Rightarrow> bool" where
  "float_lt (Fin a) (Fin b) = (a < b)"
| "float_lt NegInf NegInf = False"
| "float_lt NegInf _ = True"
| "float_lt _ NegInf = False"
| "float_lt PosInf _ = False"
| "float_lt _ PosInf = True"

definition float_le :: "pyfloat \<Rightarrow> pyfloat \<Rightarrow> bool" where
  "float_le a b = (\<not> float_lt b a)"

section \<open>Validation errors\<close>

text \<open>
  A failed construction raises one \<open>ValidationError\<close> that lists an entry for every field
  that failed: the name of the field and what failed there. \<open>value_error\<close> carries the
  message of the \<open>ValueError\<close> that a \<open>field_validator\<close> of the source raised; the others
  are the failures of the constraints declared in \<open>Field(...)\<close>.
\<close>

datatype error_kind =
    string_too_short nat
  | string_too_long nat
  | greater_than_equal
  | less_than_equal
  | value_error string

type_synonym error_details = "string \<times> error_kind"

type_synonym 'a validated = "error_kind + 'a"

text \<open>The entry that a field contributes to the error list.\<close>

definition errors_at :: "string \<Rightarrow> 'a validated \<Rightarrow> error_details list" where
  "errors_at loc r = (case r of Inl e \<Rightarrow> [(loc, e)] | Inr _ \<Rightarrow> [])"

text \<open>The errors of a construction; none when it returned an object.\<close>

definition reported :: "error_details list + 'a \<Rightarrow> error_details list" where
  "reported r = (case r of Inl es \<Rightarrow> es | Inr _ \<Rightarrow> [])"

text \<open>A \<open>field_validator\<close> runs on the value that passed the declared constraints.\<close>

definition and_then :: "'a validated \<Rightarrow> ('a \<Rightarrow> 'b validated) \<Rightarrow> 'b validated" where
  "and_then r f = (case r of Inl e \<Rightarrow> Inl e | Inr v \<Rightarrow> f v)"

section \<open>Declared field constraints\<close>

text \<open>\<open>str\<close> with optional \<open>min_length\<close> and \<open>max_length\<close>.\<close>

definition min_length_check :: "nat option \<Rightarrow> string \<Rightarrow> string validated" where
  "min_length_check min_length v =
     (case min_length of None \<Rightarrow> Inr v
      | Some m \<Rightarrow> if length v < m then Inl (string_too_short m) else Inr v)"

definition max_length_check :: "nat option \<Rightarrow> string \<Rightarrow> string validated" where
  "max_length_check max_length v =
     (case max_length of None \<Rightarrow> Inr v
      | Some m \<Rightarrow> if m < length v then Inl (string_too_long m) else Inr v)"

definition str_field :: "nat option \<Rightarrow> nat option \<Rightarrow> string \<Rightarrow> string validated" where
  "str_field min_length max_length v =
     and_then (min_length_check min_length v) (max_length_check max_length)"

text \<open>\<open>int\<close> with optional \<open>ge\<close> and \<open>le\<close>.\<close>

definition int_field :: "int option \<Rightarrow> int option \<Rightarrow> int \<Rightarrow> int validated" where
  "int_field ge le v =
     (if (case le of Some b \<Rightarrow> b < v | None \<Rightarrow> False) then Inl less_than_equal
      else if (case ge of Some b \<Rightarrow> v < b | None \<Rightarrow> False) then Inl greater_than_equal
      else Inr v)"

text \<open>\<open>float\<close> with optional \<open>ge\<close> and \<open>le\<close>.\<close>

definition float_field :: "pyfloat option \<Rightarrow> pyfloat option \<Rightarrow> pyfloat \<Rightarrow> pyfloat validated" where
  "float_field ge le v =
     (if (case le of Some b \<Rightarrow> float_lt b v | None \<Rightarrow> False) then Inl less_than_equal
      else if (case ge of Some b \<Rightarrow> float_lt v b | None \<Rightarrow> False) then Inl greater_than_equal
      else Inr v)"

text \<open>
  \<open>Optional[T] = Field(None, ...)\<close>: an absent value and \<open>None\<close> are stored as \<open>None\<close>, and
  the constraints apply to a value that is there.
\<close>

definition optional :: "('a \<Rightarrow> 'a validated) \<Rightarrow> 'a option \<Rightarrow> 'a option validated" where
  "optional f v =
     (case v of None \<Rightarrow> Inr None
      | Some x \<Rightarrow> (case f x of Inl e \<Rightarrow> Inl e | Inr y \<Rightarrow> Inr (Some y)))"

text \<open>
  \<open>T = Field(d, ...)\<close>: an absent value takes the default \<open>d\<close>, which is not validated; a
  supplied one is.
\<close>

definition with_default :: "'a \<Rightarrow> ('a \<Rightarrow> 'a validated) \<Rightarrow> 'a option \<Rightarrow> 'a validated" where
  "with_default d f v = (case v of None \<Rightarrow> Inr d | Some x \<Rightarrow> f x)"

text \<open>A field with no constraint and no validator.\<close>

definition any_field :: "'a \<Rightarrow> 'a validated" where
  "any_field v = Inr v"

section \<open>RecipeAnalysisRequest\<close>

record RecipeAnalysisRequest =
  recipe_name :: string

text \<open>\<open>if not v or not v.strip(): raise ValueError(...)\<close>, then \<open>return v.strip()\<close>.\<close>

definition validate_recipe_name :: "string \<Rightarrow> string validated" where
  "validate_recipe_name v =
     (if v = [] \<or> strip v = [] then Inl (value_error ''Recipe name cannot be empty'')
      else Inr (strip v))"

definition RecipeAnalysisRequest_recipe_name :: "string \<Rightarrow> string validated" where
  "RecipeAnalysisRequest_recipe_name v =
     and_then (str_field (Some 1) (Some 200) v) validate_recipe_name"

definition RecipeAnalysisRequest_construct ::
  "string \<Rightarrow> error_details list + RecipeAnalysisRequest" where
  "RecipeAnalysisRequest_construct v =
     (case RecipeAnalysisRequest_recipe_name v of
        Inr n \<Rightarrow> Inr \<lparr>recipe_name = n\<rparr>
      | Inl e \<Rightarrow> Inl [(''recipe_name'', e)])"

section \<open>FullAnalysisRequest\<close>

text \<open>
  The fields of the later classes carry a prefix of the class where the source repeats a
  field name (\<open>recipe_name\<close>, \<open>ingredients\<close>, \<open>cuisine\<close>, \<open>diet_type\<close>, \<open>recipe\<close>).
\<close>

record FullAnalysisRequest =
  full_recipe_name :: string
  full_ingredients :: "string list option"
  allergens :: "string list option"
  avoid_ingredients :: "string list option"

definition validate_recipe_name_full :: "string \<Rightarrow> string validated" where
  "validate_recipe_name_full v =
     (if v = [] \<or> strip v = [] then Inl (value_error ''Recipe name cannot be empty'')
      else Inr (strip v))"

definition FullAnalysisRequest_recipe_name :: "string \<Rightarrow> string validated" where
  "FullAnalysisRequest_recipe_name v =
     and_then (str_field (Some 1) (Some 200) v) validate_recipe_name_full"

text \<open>\<open>[ing.strip() for ing in v if ing.strip()]\<close>\<close>

definition strip_nonblank :: "string list \<Rightarrow> string list" where
  "strip_nonblank v = map strip (filter (\<lambda>ing. strip ing \<noteq> []) v)"

definition validate_ingredients :: "string list option \<Rightarrow> string list option validated" where
  "validate_ingredients v =
     (case v of
        None \<Rightarrow> Inr None
      | Some l \<Rightarrow>
          (let v' = strip_nonblank l
           in if length v' = 0
              then Inl (value_error ''Ingredients list cannot be empty if provided'')
              else Inr (Some v')))"

definition valid_allergens :: "string list" where
  "valid_allergens =
     [''milk'', ''eggs'', ''peanuts'', ''tree_nuts'', ''soy'', ''wheat'', ''fish'', ''shellfish'']"

text \<open>\<open>[a.strip().lower() for a in v if a.strip()]\<close>\<close>

definition strip_lower_nonblank :: "string list \<Rightarrow> string list" where
  "strip_lower_nonblank v = map (\<lambda>a. lower (strip a)) (filter (\<lambda>a. strip a \<noteq> []) v)"

definition invalid_allergen_message :: "string \<Rightarrow> string" where
  "invalid_allergen_message allergen =
     ''Invalid allergen '' @ [CHR 0x27] @ allergen @ [CHR 0x27] @ ''. '' @
     ''Valid: '' @ join '', '' (sort valid_allergens)"

text \<open>The loop over the normalised list: the first entry outside the set raises.\<close>

fun check_allergens :: "string list \<Rightarrow> error_kind option" where
  "check_allergens [] = None"
| "check_allergens (allergen # rest) =
     (if allergen \<notin> set valid_allergens
      then Some (value_error (invalid_allergen_message allergen))
      else check_allergens rest)"

definition validate_allergens :: "string list option \<Rightarrow> string list option validated" where
  "validate_allergens v =
     (case v of
        None \<Rightarrow> Inr None
      | Some l \<Rightarrow>
          (let v' = strip_lower_nonblank l
           in case check_allergens v' of Some e \<Rightarrow> Inl e | None \<Rightarrow> Inr (Some v')))"

definition FullAnalysisRequest_construct ::
  "string \<Rightarrow> string list option \<Rightarrow> string list option \<Rightarrow> string list option
     \<Rightarrow> error_details list + FullAnalysisRequest" where
  "FullAnalysisRequest_construct name ings alls avoid =
     (let r1 = FullAnalysisRequest_recipe_name name;
          r2 = validate_ingredients ings;
          r3 = validate_allergens alls;
          r4 = any_field avoid
      in case (r1, r2, r3, r4) of
           (Inr n, Inr i, Inr a, Inr av) \<Rightarrow>
             Inr \<lparr>full_recipe_name = n, full_ingredients = i, allergens = a,
                  avoid_ingredients = av\<rparr>
         | _ \<Rightarrow>
             Inl (errors_at ''recipe_name'' r1 @ errors_at ''ingredients'' r2 @
                  errors_at ''allergens'' r3 @ errors_at ''avoid_ingredients'' r4))"

section \<open>RecipeBasic\<close>

record RecipeBasic =
  basic_id :: string
  basic_name :: string
  basic_cuisine :: "string option"
  basic_diet_type :: "string option"
  basic_ingredients :: "string list"
  instructions :: "string option"
  prep_time :: "int option"
  cook_time :: "int option"
  servings :: "int option"

text \<open>
  Every field is declared with a type and a description only. \<open>ingredients\<close> has
  \<open>default_factory=list\<close>: absent, it is the empty list.
\<close>

definition RecipeBasic_construct ::
  "string \<Rightarrow> string \<Rightarrow> string option \<Rightarrow> string option \<Rightarrow> string list option
     \<Rightarrow> string option \<Rightarrow> int option \<Rightarrow> int option \<Rightarrow> int option
     \<Rightarrow> error_details list + RecipeBasic" where
  "RecipeBasic_construct i n c d ings ins pt ct sv =
     (let r1 = str_field None None i;
          r2 = str_field None None n;
          r3 = optional (str_field None None) c;
          r4 = optional (str_field None None) d;
          r5 = with_default [] any_field ings;
          r6 = optional (str_field None None) ins;
          r7 = optional (int_field None None) pt;
          r8 = optional (int_field None None) ct;
          r9 = optional (int_field None None) sv
      in case (r1, r2, r3, r4, r5, r6, r7, r8, r9) of
           (Inr i', Inr n', Inr c', Inr d', Inr ings', Inr ins', Inr pt', Inr ct', Inr sv') \<Rightarrow>
             Inr \<lparr>basic_id = i', basic_name = n', basic_cuisine = c', basic_diet_type = d',
                  basic_ingredients = ings', instructions = ins', prep_time = pt',
                  cook_time = ct', servings = sv'\<rparr>
         | _ \<Rightarrow>
             Inl (errors_at ''id'' r1 @ errors_at ''name'' r2 @ errors_at ''cuisine'' r3 @
                  errors_at ''diet_type'' r4 @ errors_at ''ingredients'' r5 @
                  errors_at ''instructions'' r6 @ errors_at ''prep_time'' r7 @
                  errors_at ''cook_time'' r8 @ errors_at ''servings'' r9))"

section \<open>RecipeRecommendation\<close>

record RecipeRecommendation =
  recommended_recipe :: RecipeBasic
  similarity_score :: pyfloat
  health_score :: pyfloat
  relevance_score :: "pyfloat option"
  reason :: string

definition RecipeRecommendation_construct ::
  "RecipeBasic \<Rightarrow> pyfloat \<Rightarrow> pyfloat \<Rightarrow> pyfloat option \<Rightarrow> string
     \<Rightarrow> error_details list + RecipeRecommendation" where
  "RecipeRecommendation_construct rcp sim hlth rel rsn =
     (let r1 = any_field rcp;
          r2 = float_field (Some (Fin 0)) (Some (Fin 100)) sim;
          r3 = float_field (Some (Fin 0)) (Some (Fin 100)) hlth;
          r4 = optional (float_field (Some (Fin 0)) (Some (Fin 100))) rel;
          r5 = str_field None None rsn
      in case (r1, r2, r3, r4, r5) of
           (Inr rcp', Inr sim', Inr hlth', Inr rel', Inr rsn') \<Rightarrow>
             Inr \<lparr>recommended_recipe = rcp', similarity_score = sim', health_score = hlth',
                  relevance_score = rel', reason = rsn'\<rparr>
         | _ \<Rightarrow>
             Inl (errors_at ''recipe'' r1 @ errors_at ''similarity_score'' r2 @
                  errors_at ''health_score'' r3 @ errors_at ''relevance_score'' r4 @
                  errors_at ''reason'' r5))"

section \<open>RecipeSearchFilters\<close>

record RecipeSearchFilters =
  search_cuisine :: "string option"
  search_diet_type :: "string option"
  min_calories :: "int option"
  max_calories :: "int option"
  min_protein :: "pyfloat option"
  max_protein :: "pyfloat option"

text \<open>
  \<open>info.data\<close> holds the fields declared earlier that validated: a field that failed has
  no key there. \<open>info_data r\<close> is \<open>None\<close> for a missing key and \<open>Some v\<close> for the value \<open>v\<close>
  stored under the key (which may itself be Python's \<open>None\<close>).
\<close>

definition info_data :: "'a validated \<Rightarrow> 'a option" where
  "info_data r = (case r of Inl _ \<Rightarrow> None | Inr v \<Rightarrow> Some v)"

definition validate_calorie_range ::
  "int option \<Rightarrow> int option option \<Rightarrow> int option validated" where
  "validate_calorie_range v data_min_calories =
     (case (v, data_min_calories) of
        (Some x, Some (Some m)) \<Rightarrow>
          if x < m then Inl (value_error ''max_calories must be greater than min_calories'')
          else Inr v
      | _ \<Rightarrow> Inr v)"

definition validate_protein_range ::
  "pyfloat option \<Rightarrow> pyfloat option option \<Rightarrow> pyfloat option validated" where
  "validate_protein_range v data_min_protein =
     (case (v, data_min_protein) of
        (Some x, Some (Some m)) \<Rightarrow>
          if float_lt x m then Inl (value_error ''max_protein must be greater than min_protein'')
          else Inr v
      | _ \<Rightarrow> Inr v)"

definition RecipeSearchFilters_construct ::
  "string option \<Rightarrow> string option \<Rightarrow> int option \<Rightarrow> int option
     \<Rightarrow> pyfloat option \<Rightarrow> pyfloat option \<Rightarrow> error_details list + RecipeSearchFilters" where
  "RecipeSearchFilters_construct c d minc maxc minp maxp =
     (let r1 = optional (str_field None None) c;
          r2 = optional (str_field None None) d;
          r3 = optional (int_field (Some 0) None) minc;
          r4 = and_then (optional (int_field (Some 0) None) maxc)
                 (\<lambda>v. validate_calorie_range v (info_data r3));
          r5 = optional (float_field (Some (Fin 0)) None) minp;
          r6 = and_then (optional (float_field (Some (Fin 0)) None) maxp)
                 (\<lambda>v. validate_protein_range v (info_data r5))
      in case (r1, r2, r3, r4, r5, r6) of
           (Inr c', Inr d', Inr minc', Inr maxc', Inr minp', Inr maxp') \<Rightarrow>
             Inr \<lparr>search_cuisine = c', search_diet_type = d', min_calories = minc',
                  max_calories = maxc', min_protein = minp', max_protein = maxp'\<rparr>
         | _ \<Rightarrow>
             Inl (errors_at ''cuisine'' r1 @ errors_at ''diet_type'' r2 @
                  errors_at ''min_calories'' r3 @ errors_at ''max_calories'' r4 @
                  errors_at ''min_protein'' r5 @ errors_at ''max_protein'' r6))"

section \<open>QuickMealFilters\<close>

record QuickMealFilters =
  max_prep_time :: int
  max_ingredients :: int
  max_cost :: int
  hostel_friendly :: bool
  quick_cuisine :: "string option"
  quick_diet_type :: "string option"

definition QuickMealFilters_construct ::
  "int option \<Rightarrow> int option \<Rightarrow> int option \<Rightarrow> bool option \<Rightarrow> string option \<Rightarrow> string option
     \<Rightarrow> error_details list + QuickMealFilters" where
  "QuickMealFilters_construct pt mi mc hf c d =
     (let r1 = with_default 5 (int_field (Some 1) (Some 30)) pt;
          r2 = with_default 3 (int_field (Some 1) (Some 10)) mi;
          r3 = with_default 100 (int_field (Some 10) (Some 500)) mc;
          r4 = with_default True any_field hf;
          r5 = optional (str_field None None) c;
          r6 = optional (str_field None None) d
      in case (r1, r2, r3, r4, r5, r6) of
           (Inr pt', Inr mi', Inr mc', Inr hf', Inr c', Inr d') \<Rightarrow>
             Inr \<lparr>max_prep_time = pt', max_ingredients = mi', max_cost = mc',
                  hostel_friendly = hf', quick_cuisine = c', quick_diet_type = d'\<rparr>
         | _ \<Rightarrow>
             Inl (errors_at ''max_prep_time'' r1 @ errors_at ''max_ingredients'' r2 @
                  errors_at ''max_cost'' r3 @ errors_at ''hostel_friendly'' r4 @
                  errors_at ''cuisine'' r5 @ errors_at ''diet_type'' r6))"

section \<open>QuickMealRecipe\<close>

record QuickMealRecipe =
  quick_recipe :: RecipeBasic
  ingredient_count :: int
  estimated_cost :: int
  equipment_needed :: "string list"
  practical_tips :: "string option"

definition QuickMealRecipe_construct ::
  "RecipeBasic \<Rightarrow> int \<Rightarrow> int \<Rightarrow> string list option \<Rightarrow> string option
     \<Rightarrow> error_details list + QuickMealRecipe" where
  "QuickMealRecipe_construct rcp ic ec eq tips =
     (let r1 = any_field rcp;
          r2 = int_field (Some 1) None ic;
          r3 = int_field (Some 0) None ec;
          r4 = with_default [] any_field eq;
          r5 = optional (str_field None None) tips
      in case (r1, r2, r3, r4, r5) of
           (Inr rcp', Inr ic', Inr ec', Inr eq', Inr tips') \<Rightarrow>
             Inr \<lparr>quick_recipe = rcp', ingredient_count = ic', estimated_cost = ec',
                  equipment_needed = eq', practical_tips = tips'\<rparr>
         | _ \<Rightarrow>
             Inl (errors_at ''recipe'' r1 @ errors_at ''ingredient_count'' r2 @
                  errors_at ''estimated_cost'' r3 @ errors_at ''equipment_needed'' r4 @
                  errors_at ''practical_tips'' r5))"

section \<open>QuickMealResponse\<close>

text \<open>
  \<open>filters_applied\<close> is a \<open>Dict[str, Any]\<close>: a map from strings to values of any one type
  \<open>'v\<close>. The meals are \<open>QuickMealRecipe\<close> objects.
\<close>

record 'v QuickMealResponse =
  meals :: "QuickMealRecipe list"
  total_found :: int
  filters_applied :: "string \<rightharpoonup> 'v"
  psychological_tip :: string

definition default_psychological_tip :: string where
  "default_psychological_tip =
     ''Quick healthy meals help stabilize blood sugar and reduce extreme hunger, '' @
     ''making it easier to avoid cravings for junk food.''"

definition QuickMealResponse_construct ::
  "QuickMealRecipe list \<Rightarrow> int \<Rightarrow> (string \<rightharpoonup> 'v) \<Rightarrow> string option
     \<Rightarrow> error_details list + 'v QuickMealResponse" where
  "QuickMealResponse_construct ms tf fa tip =
     (let r1 = any_field ms;
          r2 = int_field (Some 0) None tf;
          r3 = any_field fa;
          r4 = with_default default_psychological_tip (str_field None None) tip
      in case (r1, r2, r3, r4) of
           (Inr ms', Inr tf', Inr fa', Inr tip') \<Rightarrow>
             Inr \<lparr>meals = ms', total_found = tf', filters_applied = fa',
                  psychological_tip = tip'\<rparr>
         | _ \<Rightarrow>
             Inl (errors_at ''meals'' r1 @ errors_at ''total_found'' r2 @
                  errors_at ''filters_applied'' r3 @ errors_at ''psychological_tip'' r4))"

section \<open>Trimming\<close>

text \<open>A trimmed string neither starts nor ends with a space, and trimming it again changes nothing.\<close>

lemma rstrip_no_trailing: "rstrip s = [] \<or> \<not> isspace (last (rstrip s))"
proof (cases "dropWhile isspace (rev s)")
  case Nil
  then show ?thesis by (simp add: rstrip_def)
next
  case (Cons y ys)
  then have "\<not> isspace (hd (dropWhile isspace (rev s)))"
    using hd_dropWhile [of isspace "rev s"] by simp
  then show ?thesis by (simp add: rstrip_def Cons last_rev)
qed

lemma rstrip_id: "s = [] \<or> \<not> isspace (last s) \<Longrightarrow> rstrip s = s"
proof (cases s rule: rev_cases)
  case Nil
  then show ?thesis by (simp add: rstrip_def)
next
  case (snoc ys y)
  assume "s = [] \<or> \<not> isspace (last s)"
  with snoc show ?thesis by (simp add: rstrip_def)
qed

lemma lstrip_keeps_end:
  assumes "s = [] \<or> \<not> isspace (last s)"
  shows "lstrip s = [] \<or> \<not> isspace (last (lstrip s))"
proof (cases "lstrip s = []")
  case True
  then show ?thesis by simp
next
  case False
  have "s = takeWhile isspace s @ lstrip s" by (simp add: lstrip_def)
  then have "last s = last (lstrip s)" using False by (metis last_appendR)
  moreover have "s \<noteq> []" using False by (auto simp: lstrip_def)
  ultimately show ?thesis using assms by simp
qed

lemma strip_no_trailing: "strip s = [] \<or> \<not> isspace (last (strip s))"
  unfolding strip_def by (rule lstrip_keeps_end) (rule rstrip_no_trailing)

lemma strip_no_leading: "strip s = [] \<or> \<not> isspace (hd (strip s))"
  unfolding strip_def lstrip_def using hd_dropWhile [of isspace "rstrip s"] by blast

lemma strip_strip: "strip (strip s) = strip s"
proof -
  have "rstrip (strip s) = strip s" using strip_no_trailing by (rule rstrip_id)
  then have "strip (strip s) = lstrip (strip s)" by (simp add: strip_def)
  also have "\<dots> = strip s" by (simp add: strip_def lstrip_def)
  finally show ?thesis .
qed

section \<open>The allergen set and the loop that checks it\<close>

lemma valid_allergens_all_normal:
  "list_all (\<lambda>a. strip a = a \<and> lower a = a \<and> a \<noteq> []) valid_allergens"
  by code_simp

lemma valid_allergens_normal:
  "a \<in> set valid_allergens \<Longrightarrow> strip a = a \<and> lower a = a \<and> a \<noteq> []"
  using valid_allergens_all_normal by (simp add: list_all_iff)

lemma sorted_valid_allergens:
  "join '', '' (sort valid_allergens) =
     ''eggs, fish, milk, peanuts, shellfish, soy, tree_nuts, wheat''"
  by code_simp

lemma check_allergens_None:
  "check_allergens xs = None \<longleftrightarrow> set xs \<subseteq> set valid_allergens"
  by (induction xs) auto

lemma check_allergens_Some:
  "check_allergens xs = Some e \<Longrightarrow>
     \<exists>bad ys zs. xs = ys @ bad # zs \<and> set ys \<subseteq> set valid_allergens \<and>
       bad \<notin> set valid_allergens \<and> e = value_error (invalid_allergen_message bad)"
proof (induction xs)
  case Nil
  then show ?case by simp
next
  case (Cons x xs)
  show ?case
  proof (cases "x \<in> set valid_allergens")
    case True
    with Cons.prems have "check_allergens xs = Some e" by simp
    from Cons.IH [OF this] obtain bad ys zs where
      "xs = ys @ bad # zs" "set ys \<subseteq> set valid_allergens"
      "bad \<notin> set valid_allergens" "e = value_error (invalid_allergen_message bad)"
      by blast
    with True have "x # xs = (x # ys) @ bad # zs \<and> set (x # ys) \<subseteq> set valid_allergens \<and>
       bad \<notin> set valid_allergens \<and> e = value_error (invalid_allergen_message bad)"
      by simp
    then show ?thesis by blast
  next
    case False
    with Cons.prems have "e = value_error (invalid_allergen_message x)" by simp
    with False have "x # xs = [] @ x # xs \<and> set [] \<subseteq> set valid_allergens \<and>
       x \<notin> set valid_allergens \<and> e = value_error (invalid_allergen_message x)"
      by simp
    then show ?thesis by blast
  qed
qed


section \<open>Errors and fields of a construction\<close>

lemma errors_at_Inr [simp]: "errors_at loc (Inr v) = []"
  by (simp add: errors_at_def)

lemma errors_at_Inl [simp]: "errors_at loc (Inl e) = [(loc, e)]"
  by (simp add: errors_at_def)

lemma reported_simps [simp]: "reported (Inl es) = es" "reported (Inr v) = []"
  by (simp_all add: reported_def)

lemma recipe_name_field_iff:
  "RecipeAnalysisRequest_recipe_name v = Inr n \<longleftrightarrow>
     1 \<le> length v \<and> length v \<le> 200 \<and> strip v \<noteq> [] \<and> n = strip v"
  by (auto simp: RecipeAnalysisRequest_recipe_name_def str_field_def min_length_check_def
      max_length_check_def and_then_def validate_recipe_name_def Suc_le_eq)

lemma full_recipe_name_field_iff:
  "FullAnalysisRequest_recipe_name v = Inr n \<longleftrightarrow>
     1 \<le> length v \<and> length v \<le> 200 \<and> strip v \<noteq> [] \<and> n = strip v"
  by (auto simp: FullAnalysisRequest_recipe_name_def str_field_def min_length_check_def
      max_length_check_def and_then_def validate_recipe_name_full_def Suc_le_eq)

lemma Full_construct_Inr:
  "FullAnalysisRequest_construct name ings alls avoid = Inr obj \<longleftrightarrow>
     (\<exists>n i a. FullAnalysisRequest_recipe_name name = Inr n \<and>
        validate_ingredients ings = Inr i \<and> validate_allergens alls = Inr a \<and>
        obj = \<lparr>full_recipe_name = n, full_ingredients = i, allergens = a,
               avoid_ingredients = avoid\<rparr>)"
  by (auto simp: FullAnalysisRequest_construct_def Let_def any_field_def split: sum.splits)

lemma Full_reported:
  "reported (FullAnalysisRequest_construct name ings alls avoid) =
     errors_at ''recipe_name'' (FullAnalysisRequest_recipe_name name) @
     errors_at ''ingredients'' (validate_ingredients ings) @
     errors_at ''allergens'' (validate_allergens alls)"
  by (simp add: FullAnalysisRequest_construct_def Let_def any_field_def split: sum.splits)

lemma Full_construct_cases:
  "(\<exists>obj. FullAnalysisRequest_construct name ings alls avoid = Inr obj) \<or>
   (\<exists>errs. FullAnalysisRequest_construct name ings alls avoid = Inl errs \<and> errs \<noteq> [])"
  by (simp add: FullAnalysisRequest_construct_def Let_def any_field_def split: sum.splits)

lemma in_errors_at: "(loc, e) \<in> set (errors_at loc' r) \<longleftrightarrow> loc = loc' \<and> r = Inl e"
  by (cases r) auto

section \<open>Defaults of QuickMealFilters\<close>

text \<open>
  C6. \<open>QuickMealFilters\<close> constructed with no field supplied succeeds, and the object is
  exactly \<open>max_prep_time = 5\<close>, \<open>max_ingredients = 3\<close>, \<open>max_cost = 100\<close>,
  \<open>hostel_friendly = True\<close>, \<open>cuisine = None\<close>, \<open>diet_type = None\<close>.
\<close>

theorem QuickMealFilters_defaults:
  "QuickMealFilters_construct None None None None None None =
     Inr \<lparr>max_prep_time = 5, max_ingredients = 3, max_cost = 100, hostel_friendly = True,
          quick_cuisine = None, quick_diet_type = None\<rparr>"
  by (simp add: QuickMealFilters_construct_def with_default_def optional_def)

section \<open>The recipe name\<close>

lemma RecipeAnalysisRequest_construct_Inr:
  "RecipeAnalysisRequest_construct v = Inr obj \<longleftrightarrow>
     1 \<le> length v \<and> length v \<le> 200 \<and> strip v \<noteq> [] \<and> obj = \<lparr>recipe_name = strip v\<rparr>"
proof (cases "RecipeAnalysisRequest_recipe_name v")
  case (Inl e)
  then have "\<not> (1 \<le> length v \<and> length v \<le> 200 \<and> strip v \<noteq> [])"
    using recipe_name_field_iff [of v "strip v"] by auto
  with Inl show ?thesis by (auto simp: RecipeAnalysisRequest_construct_def)
next
  case (Inr n)
  then show ?thesis
    using recipe_name_field_iff [of v n] by (auto simp: RecipeAnalysisRequest_construct_def)
qed

lemma length_strip_le: "length (strip s) \<le> length s"
proof -
  have "length (rstrip s) \<le> length s"
    unfolding rstrip_def using length_dropWhile_le [of isspace "rev s"] by simp
  moreover have "length (strip s) \<le> length (rstrip s)"
    unfolding strip_def lstrip_def by (rule length_dropWhile_le)
  ultimately show ?thesis by simp
qed

lemma Full_recipe_name_error:
  "''recipe_name'' \<in> fst ` set (reported (FullAnalysisRequest_construct v ings alls avoid)) \<longleftrightarrow>
     \<not> (1 \<le> length v \<and> length v \<le> 200 \<and> strip v \<noteq> [])"
proof (cases "FullAnalysisRequest_recipe_name v")
  case (Inl e)
  then have "\<not> (1 \<le> length v \<and> length v \<le> 200 \<and> strip v \<noteq> [])"
    using full_recipe_name_field_iff [of v "strip v"] by auto
  with Inl show ?thesis by (simp add: Full_reported)
next
  case (Inr n)
  then have "1 \<le> length v \<and> length v \<le> 200 \<and> strip v \<noteq> []"
    using full_recipe_name_field_iff [of v n] by auto
  with Inr show ?thesis by (force simp: Full_reported image_iff in_errors_at)
qed


text \<open>
  C4, as stated: construction succeeds iff the trimmed value of the input is non-empty and
  has a length between 1 and 200. It does not: \<open>min_length\<close> and \<open>max_length\<close> are checked
  on the input as supplied, before the validator trims it. The letter \<open>a\<close> followed by 200
  spaces has the trimmed value \<open>a\<close>, of length 1, and is rejected as too long.
\<close>

theorem recipe_name_raw_length_counterexample:
  "strip (CHR ''a'' # replicate 200 CHR '' '') = ''a'' \<and>
   RecipeAnalysisRequest_construct (CHR ''a'' # replicate 200 CHR '' '') =
     Inl [(''recipe_name'', string_too_long 200)]"
  by code_simp

text \<open>
  C4, amended. \<open>RecipeAnalysisRequest\<close> is constructed iff the input as supplied has a
  length between 1 and 200 and its trimmed value is non-empty, and the stored name is the
  trimmed value. For \<open>FullAnalysisRequest\<close> the same condition decides whether the field
  \<open>recipe_name\<close> is reported, and the construction succeeds iff moreover the ingredients
  and the allergens validate. A stored name is trimmed and has a length between 1 and 200;
  accepted inputs with the same trimmed value store the same name; an input that is all
  whitespace (or empty) fails.
\<close>

theorem recipe_name_trimmed_and_bounded:
  "(RecipeAnalysisRequest_construct v = Inr obj \<longleftrightarrow>
      1 \<le> length v \<and> length v \<le> 200 \<and> strip v \<noteq> [] \<and> obj = \<lparr>recipe_name = strip v\<rparr>) \<and>
   (FullAnalysisRequest_construct v ings alls avoid = Inr fobj \<longleftrightarrow>
      1 \<le> length v \<and> length v \<le> 200 \<and> strip v \<noteq> [] \<and>
      (\<exists>i a. validate_ingredients ings = Inr i \<and> validate_allergens alls = Inr a \<and>
         fobj = \<lparr>full_recipe_name = strip v, full_ingredients = i, allergens = a,
                 avoid_ingredients = avoid\<rparr>)) \<and>
   (''recipe_name'' \<in> fst ` set (reported (FullAnalysisRequest_construct v ings alls avoid)) \<longleftrightarrow>
      \<not> (1 \<le> length v \<and> length v \<le> 200 \<and> strip v \<noteq> [])) \<and>
   (RecipeAnalysisRequest_construct v = Inr obj \<longrightarrow>
      1 \<le> length (recipe_name obj) \<and> length (recipe_name obj) \<le> 200 \<and>
      strip (recipe_name obj) = recipe_name obj) \<and>
   (RecipeAnalysisRequest_construct v = Inr obj \<and> RecipeAnalysisRequest_construct w = Inr obj' \<and>
      strip v = strip w \<longrightarrow> obj = obj') \<and>
   (strip v = [] \<longrightarrow>
      (\<exists>e. RecipeAnalysisRequest_construct v = Inl [(''recipe_name'', e)]) \<and>
      ''recipe_name'' \<in> fst ` set (reported (FullAnalysisRequest_construct v ings alls avoid)))"
proof (intro conjI)
  show "RecipeAnalysisRequest_construct v = Inr obj \<longleftrightarrow>
      1 \<le> length v \<and> length v \<le> 200 \<and> strip v \<noteq> [] \<and> obj = \<lparr>recipe_name = strip v\<rparr>"
    by (rule RecipeAnalysisRequest_construct_Inr)
  show "FullAnalysisRequest_construct v ings alls avoid = Inr fobj \<longleftrightarrow>
      1 \<le> length v \<and> length v \<le> 200 \<and> strip v \<noteq> [] \<and>
      (\<exists>i a. validate_ingredients ings = Inr i \<and> validate_allergens alls = Inr a \<and>
         fobj = \<lparr>full_recipe_name = strip v, full_ingredients = i, allergens = a,
                 avoid_ingredients = avoid\<rparr>)"
    unfolding Full_construct_Inr full_recipe_name_field_iff by blast
  show "''recipe_name'' \<in> fst ` set (reported (FullAnalysisRequest_construct v ings alls avoid)) \<longleftrightarrow>
      \<not> (1 \<le> length v \<and> length v \<le> 200 \<and> strip v \<noteq> [])"
    by (rule Full_recipe_name_error)
  show "RecipeAnalysisRequest_construct v = Inr obj \<longrightarrow>
      1 \<le> length (recipe_name obj) \<and> length (recipe_name obj) \<le> 200 \<and>
      strip (recipe_name obj) = recipe_name obj"
  proof
    assume "RecipeAnalysisRequest_construct v = Inr obj"
    then have v: "length v \<le> 200" "strip v \<noteq> []" and obj: "recipe_name obj = strip v"
      by (simp_all add: RecipeAnalysisRequest_construct_Inr)
    have "length (strip v) \<le> 200" using length_strip_le [of v] v(1) by simp
    moreover have "1 \<le> length (strip v)" using v(2) by (simp add: Suc_le_eq)
    ultimately show "1 \<le> length (recipe_name obj) \<and> length (recipe_name obj) \<le> 200 \<and>
      strip (recipe_name obj) = recipe_name obj"
      by (simp add: obj strip_strip)
  qed
  show "RecipeAnalysisRequest_construct v = Inr obj \<and> RecipeAnalysisRequest_construct w = Inr obj' \<and>
      strip v = strip w \<longrightarrow> obj = obj'"
    by (simp add: RecipeAnalysisRequest_construct_Inr)
  show "strip v = [] \<longrightarrow>
      (\<exists>e. RecipeAnalysisRequest_construct v = Inl [(''recipe_name'', e)]) \<and>
      ''recipe_name'' \<in> fst ` set (reported (FullAnalysisRequest_construct v ings alls avoid))"
  proof
    assume blank: "strip v = []"
    then have "\<And>n. RecipeAnalysisRequest_recipe_name v \<noteq> Inr n"
      by (simp add: recipe_name_field_iff)
    then obtain e where "RecipeAnalysisRequest_recipe_name v = Inl e"
      by (cases "RecipeAnalysisRequest_recipe_name v") auto
    then have "RecipeAnalysisRequest_construct v = Inl [(''recipe_name'', e)]"
      by (simp add: RecipeAnalysisRequest_construct_def)
    moreover have
      "''recipe_name'' \<in> fst ` set (reported (FullAnalysisRequest_construct v ings alls avoid))"
      using blank by (simp add: Full_recipe_name_error)
    ultimately show "(\<exists>e. RecipeAnalysisRequest_construct v = Inl [(''recipe_name'', e)]) \<and>
      ''recipe_name'' \<in> fst ` set (reported (FullAnalysisRequest_construct v ings alls avoid))"
      by blast
  qed
qed

theorem recipe_name_trimmed_and_bounded_witness:
  "RecipeAnalysisRequest_construct ''  Chicken Curry '' = Inr \<lparr>recipe_name = ''Chicken Curry''\<rparr> \<and>
   RecipeAnalysisRequest_construct ''Chicken Curry'' = Inr \<lparr>recipe_name = ''Chicken Curry''\<rparr> \<and>
   FullAnalysisRequest_construct ''  Chicken Curry '' None None None =
     Inr \<lparr>full_recipe_name = ''Chicken Curry'', full_ingredients = None, allergens = None,
          avoid_ingredients = None\<rparr> \<and>
   (\<exists>e. RecipeAnalysisRequest_construct ''   '' = Inl [(''recipe_name'', e)])"
proof -
  have a: "strip ''  Chicken Curry '' = ''Chicken Curry''"
    and b: "strip ''Chicken Curry'' = ''Chicken Curry''"
    and c: "strip ''   '' = []"
    by code_simp+
  have v: "validate_ingredients None = Inr None" "validate_allergens None = Inr None"
    by (simp_all add: validate_ingredients_def validate_allergens_def)
  show ?thesis
    using recipe_name_trimmed_and_bounded
      [of "''  Chicken Curry ''" "\<lparr>recipe_name = ''Chicken Curry''\<rparr>" None None None
        "\<lparr>full_recipe_name = ''Chicken Curry'', full_ingredients = None, allergens = None,
          avoid_ingredients = None\<rparr>" "''Chicken Curry''"]
      recipe_name_trimmed_and_bounded
      [of "''Chicken Curry''" "\<lparr>recipe_name = ''Chicken Curry''\<rparr>"]
      recipe_name_trimmed_and_bounded [of "''   ''"]
    by (simp add: a b c v)
qed

section \<open>The ingredients of a full request\<close>

lemma strip_nonblank_Nil: "strip_nonblank l = [] \<longleftrightarrow> (\<forall>s\<in>set l. strip s = [])"
  by (auto simp: strip_nonblank_def filter_empty_conv)

lemma validate_ingredients_Some:
  "validate_ingredients (Some l) =
     (if \<forall>s\<in>set l. strip s = []
      then Inl (value_error ''Ingredients list cannot be empty if provided'')
      else Inr (Some (strip_nonblank l)))"
  using strip_nonblank_Nil [of l] by (simp add: validate_ingredients_def Let_def)

lemma strip_nonblank_trimmed: "s \<in> set (strip_nonblank l) \<Longrightarrow> strip s = s \<and> s \<noteq> []"
  by (auto simp: strip_nonblank_def strip_strip)

text \<open>
  C2. With an ingredients list present, the entries that are empty after trimming are
  dropped and the others are stored trimmed, in their order. The construction fails with
  the message \<open>Ingredients list cannot be empty if provided\<close> exactly when every entry is
  empty after trimming, and the field fails in no other way. When the recipe name and the
  allergens validate, the construction succeeds as soon as one entry is not blank: the
  ingredients \<open>["  ", "rice", ""]\<close> are stored as \<open>["rice"]\<close>, and \<open>["  "]\<close> fails.
\<close>

theorem ingredients_blank_entries_dropped:
  "(FullAnalysisRequest_construct name (Some l) alls avoid = Inr obj \<longrightarrow>
      full_ingredients obj = Some (map strip (filter (\<lambda>ing. strip ing \<noteq> []) l)) \<and>
      (\<exists>ing\<in>set l. strip ing \<noteq> [])) \<and>
   ((''ingredients'', value_error ''Ingredients list cannot be empty if provided'')
        \<in> set (reported (FullAnalysisRequest_construct name (Some l) alls avoid)) \<longleftrightarrow>
      (\<forall>ing\<in>set l. strip ing = [])) \<and>
   (''ingredients'' \<in> fst ` set (reported (FullAnalysisRequest_construct name (Some l) alls avoid)) \<longleftrightarrow>
      (\<forall>ing\<in>set l. strip ing = [])) \<and>
   ((\<forall>ing\<in>set l. strip ing = []) \<longrightarrow>
      (\<exists>errs. FullAnalysisRequest_construct name (Some l) alls avoid = Inl errs)) \<and>
   (FullAnalysisRequest_recipe_name name = Inr n \<and> validate_allergens alls = Inr a \<and>
      (\<exists>ing\<in>set l. strip ing \<noteq> []) \<longrightarrow>
      FullAnalysisRequest_construct name (Some l) alls avoid =
        Inr \<lparr>full_recipe_name = n,
             full_ingredients = Some (map strip (filter (\<lambda>ing. strip ing \<noteq> []) l)),
             allergens = a, avoid_ingredients = avoid\<rparr>) \<and>
   (FullAnalysisRequest_recipe_name name = Inr n \<and> validate_allergens alls = Inr a \<longrightarrow>
      FullAnalysisRequest_construct name (Some [''  '', ''rice'', '''']) alls avoid =
        Inr \<lparr>full_recipe_name = n, full_ingredients = Some [''rice''],
             allergens = a, avoid_ingredients = avoid\<rparr> \<and>
      FullAnalysisRequest_construct name (Some [''  '']) alls avoid =
        Inl [(''ingredients'', value_error ''Ingredients list cannot be empty if provided'')])"
proof (intro conjI)
  let ?r = "FullAnalysisRequest_construct name (Some l) alls avoid"
  let ?e = "value_error ''Ingredients list cannot be empty if provided''"
  show "?r = Inr obj \<longrightarrow>
      full_ingredients obj = Some (map strip (filter (\<lambda>ing. strip ing \<noteq> []) l)) \<and>
      (\<exists>ing\<in>set l. strip ing \<noteq> [])"
    by (auto simp: Full_construct_Inr validate_ingredients_Some strip_nonblank_def
        split: if_splits)
  show "(''ingredients'', ?e) \<in> set (reported ?r) \<longleftrightarrow> (\<forall>ing\<in>set l. strip ing = [])"
    by (auto simp: Full_reported in_errors_at validate_ingredients_Some)
  show "''ingredients'' \<in> fst ` set (reported ?r) \<longleftrightarrow> (\<forall>ing\<in>set l. strip ing = [])"
    by (auto simp: Full_reported in_errors_at validate_ingredients_Some image_iff)
  show "(\<forall>ing\<in>set l. strip ing = []) \<longrightarrow> (\<exists>errs. ?r = Inl errs)"
  proof
    assume "\<forall>ing\<in>set l. strip ing = []"
    then have "\<And>obj. ?r \<noteq> Inr obj"
      by (simp add: Full_construct_Inr validate_ingredients_Some)
    then show "\<exists>errs. ?r = Inl errs" by (cases ?r) auto
  qed
  show "FullAnalysisRequest_recipe_name name = Inr n \<and> validate_allergens alls = Inr a \<and>
      (\<exists>ing\<in>set l. strip ing \<noteq> []) \<longrightarrow>
      ?r = Inr \<lparr>full_recipe_name = n,
             full_ingredients = Some (map strip (filter (\<lambda>ing. strip ing \<noteq> []) l)),
             allergens = a, avoid_ingredients = avoid\<rparr>"
    by (auto simp: Full_construct_Inr validate_ingredients_Some strip_nonblank_def)
  have rice: "validate_ingredients (Some [''  '', ''rice'', '''']) = Inr (Some [''rice''])"
    by code_simp
  have blank: "validate_ingredients (Some [''  '']) = Inl ?e"
    by code_simp
  show "FullAnalysisRequest_recipe_name name = Inr n \<and> validate_allergens alls = Inr a \<longrightarrow>
      FullAnalysisRequest_construct name (Some [''  '', ''rice'', '''']) alls avoid =
        Inr \<lparr>full_recipe_name = n, full_ingredients = Some [''rice''],
             allergens = a, avoid_ingredients = avoid\<rparr> \<and>
      FullAnalysisRequest_construct name (Some [''  '']) alls avoid = Inl [(''ingredients'', ?e)]"
    by (simp add: FullAnalysisRequest_construct_def Let_def any_field_def rice blank)
qed

theorem ingredients_blank_entries_dropped_witness:
  "FullAnalysisRequest_construct ''Fried Rice'' (Some [''  '', '' rice'', '''', ''egg  '']) None None =
     Inr \<lparr>full_recipe_name = ''Fried Rice'', full_ingredients = Some [''rice'', ''egg''],
          allergens = None, avoid_ingredients = None\<rparr> \<and>
   FullAnalysisRequest_construct ''Fried Rice'' (Some [''  '', ''rice'', '''']) None None =
     Inr \<lparr>full_recipe_name = ''Fried Rice'', full_ingredients = Some [''rice''],
          allergens = None, avoid_ingredients = None\<rparr> \<and>
   FullAnalysisRequest_construct ''Fried Rice'' (Some [''  '']) None None =
     Inl [(''ingredients'', value_error ''Ingredients list cannot be empty if provided'')] \<and>
   (\<exists>errs. FullAnalysisRequest_construct ''Fried Rice'' (Some ['' '', '''']) None None = Inl errs)"
proof -
  have n: "FullAnalysisRequest_recipe_name ''Fried Rice'' = Inr ''Fried Rice''"
    by code_simp
  have a: "validate_allergens None = Inr None"
    by (simp add: validate_allergens_def)
  have s: "strip ''  '' = []" "strip '' rice'' = ''rice''" "strip [] = []"
    "strip ''egg  '' = ''egg''" "strip '' '' = []"
    by code_simp+
  show ?thesis
    using ingredients_blank_entries_dropped
      [of "''Fried Rice''" "[''  '', '' rice'', '''', ''egg  '']" None None _ "''Fried Rice''" None]
      ingredients_blank_entries_dropped
      [of "''Fried Rice''" "['' '', '''']" None None _ "''Fried Rice''" None]
    by (simp add: n a s)
qed

section \<open>The allergens of a full request\<close>

lemma strip_lower_nonblank_Nil:
  "strip_lower_nonblank l = [] \<longleftrightarrow> (\<forall>a\<in>set l. strip a = [])"
  by (auto simp: strip_lower_nonblank_def filter_empty_conv)

lemma in_strip_lower_nonblank:
  "b \<in> set (strip_lower_nonblank l) \<longleftrightarrow> (\<exists>a\<in>set l. strip a \<noteq> [] \<and> b = lower (strip a))"
  by (auto simp: strip_lower_nonblank_def)

lemma validate_allergens_Inr:
  "validate_allergens (Some l) = Inr r \<longleftrightarrow>
     set (strip_lower_nonblank l) \<subseteq> set valid_allergens \<and> r = Some (strip_lower_nonblank l)"
  using check_allergens_None [of "strip_lower_nonblank l"]
  by (auto simp: validate_allergens_def Let_def split: option.splits)

lemma validate_allergens_Inl:
  "validate_allergens (Some l) = Inl e \<Longrightarrow>
     \<exists>bad ys zs. strip_lower_nonblank l = ys @ bad # zs \<and> set ys \<subseteq> set valid_allergens \<and>
       bad \<notin> set valid_allergens \<and> e = value_error (invalid_allergen_message bad)"
  using check_allergens_Some [of "strip_lower_nonblank l" e]
  by (auto simp: validate_allergens_def Let_def split: option.splits)

lemma invalid_allergen_message_eq:
  "invalid_allergen_message bad =
     ''Invalid allergen '' @ [CHR 0x27] @ bad @ [CHR 0x27] @
     ''. Valid: eggs, fish, milk, peanuts, shellfish, soy, tree_nuts, wheat''"
  by (simp add: invalid_allergen_message_def sorted_valid_allergens)

text \<open>
  C8. An allergens list whose entries are all empty after trimming validates to the empty
  list: the field reports no error, a constructed object stores \<open>[]\<close>, and the
  construction succeeds whenever the recipe name and the ingredients validate. The same
  list supplied as ingredients is rejected: only that field checks that something is left.
\<close>

theorem blank_allergens_accepted:
  "(\<forall>a\<in>set l. strip a = []) \<longrightarrow>
     validate_allergens (Some l) = Inr (Some []) \<and>
     ''allergens'' \<notin> fst ` set (reported (FullAnalysisRequest_construct name ings (Some l) avoid)) \<and>
     (FullAnalysisRequest_construct name ings (Some l) avoid = Inr obj \<longrightarrow>
        allergens obj = Some []) \<and>
     (FullAnalysisRequest_recipe_name name = Inr n \<and> validate_ingredients ings = Inr i \<longrightarrow>
        FullAnalysisRequest_construct name ings (Some l) avoid =
          Inr \<lparr>full_recipe_name = n, full_ingredients = i, allergens = Some [],
               avoid_ingredients = avoid\<rparr>) \<and>
     (''ingredients'', value_error ''Ingredients list cannot be empty if provided'')
        \<in> set (reported (FullAnalysisRequest_construct name (Some l) alls avoid))"
proof
  assume blank: "\<forall>a\<in>set l. strip a = []"
  then have nil: "strip_lower_nonblank l = []" by (simp add: strip_lower_nonblank_Nil)
  then have ok: "validate_allergens (Some l) = Inr (Some [])"
    by (simp add: validate_allergens_Inr)
  have "''allergens'' \<notin> fst ` set (reported (FullAnalysisRequest_construct name ings (Some l) avoid))"
    by (auto simp: Full_reported in_errors_at ok)
  moreover have "FullAnalysisRequest_construct name ings (Some l) avoid = Inr obj \<longrightarrow>
        allergens obj = Some []"
    by (auto simp: Full_construct_Inr ok)
  moreover have "FullAnalysisRequest_recipe_name name = Inr n \<and> validate_ingredients ings = Inr i \<longrightarrow>
        FullAnalysisRequest_construct name ings (Some l) avoid =
          Inr \<lparr>full_recipe_name = n, full_ingredients = i, allergens = Some [],
               avoid_ingredients = avoid\<rparr>"
    by (simp add: Full_construct_Inr ok)
  moreover have "(''ingredients'', value_error ''Ingredients list cannot be empty if provided'')
        \<in> set (reported (FullAnalysisRequest_construct name (Some l) alls avoid))"
    using blank by (simp add: Full_reported in_errors_at validate_ingredients_Some)
  ultimately show "validate_allergens (Some l) = Inr (Some []) \<and>
     ''allergens'' \<notin> fst ` set (reported (FullAnalysisRequest_construct name ings (Some l) avoid)) \<and>
     (FullAnalysisRequest_construct name ings (Some l) avoid = Inr obj \<longrightarrow>
        allergens obj = Some []) \<and>
     (FullAnalysisRequest_recipe_name name = Inr n \<and> validate_ingredients ings = Inr i \<longrightarrow>
        FullAnalysisRequest_construct name ings (Some l) avoid =
          Inr \<lparr>full_recipe_name = n, full_ingredients = i, allergens = Some [],
               avoid_ingredients = avoid\<rparr>) \<and>
     (''ingredients'', value_error ''Ingredients list cannot be empty if provided'')
        \<in> set (reported (FullAnalysisRequest_construct name (Some l) alls avoid))"
    using ok by blast
qed

theorem blank_allergens_accepted_witness:
  "FullAnalysisRequest_construct ''Pancakes'' (Some [''flour'']) (Some [''  '', '''']) None =
     Inr \<lparr>full_recipe_name = ''Pancakes'', full_ingredients = Some [''flour''],
          allergens = Some [], avoid_ingredients = None\<rparr> \<and>
   validate_allergens (Some [''  '', '''']) = Inr (Some []) \<and>
   FullAnalysisRequest_construct ''Pancakes'' (Some [''  '', '''']) None None =
     Inl [(''ingredients'', value_error ''Ingredients list cannot be empty if provided'')]"
proof -
  have s: "strip ''  '' = []" "strip [] = []"
    by code_simp+
  have n: "FullAnalysisRequest_recipe_name ''Pancakes'' = Inr ''Pancakes''"
    and i: "validate_ingredients (Some [''flour'']) = Inr (Some [''flour''])"
    and e: "FullAnalysisRequest_construct ''Pancakes'' (Some [''  '', '''']) None None =
     Inl [(''ingredients'', value_error ''Ingredients list cannot be empty if provided'')]"
    by code_simp+
  show ?thesis
    using blank_allergens_accepted
      [of "[''  '', '''']" "''Pancakes''" "Some [''flour'']" None _ "''Pancakes''"
        "Some [''flour'']" None]
    by (simp add: s n i e)
qed

lemma allergens_error_iff:
  "''allergens'' \<in> fst ` set (reported (FullAnalysisRequest_construct name ings (Some l) avoid)) \<longleftrightarrow>
     (\<exists>a\<in>set l. strip a \<noteq> [] \<and> lower (strip a) \<notin> set valid_allergens)"
proof (cases "validate_allergens (Some l)")
  case (Inl e)
  from validate_allergens_Inl [OF this] obtain bad ys zs where
    "strip_lower_nonblank l = ys @ bad # zs" "bad \<notin> set valid_allergens" by blast
  then have "bad \<in> set (strip_lower_nonblank l)" "bad \<notin> set valid_allergens" by simp_all
  then have "\<exists>a\<in>set l. strip a \<noteq> [] \<and> lower (strip a) \<notin> set valid_allergens"
    by (auto simp: in_strip_lower_nonblank)
  with Inl show ?thesis by (force simp: Full_reported in_errors_at image_iff)
next
  case (Inr r)
  then have "set (strip_lower_nonblank l) \<subseteq> set valid_allergens"
    by (simp add: validate_allergens_Inr)
  moreover have "\<And>a. a \<in> set l \<Longrightarrow> strip a \<noteq> [] \<Longrightarrow>
      lower (strip a) \<in> set (strip_lower_nonblank l)"
    by (auto simp: in_strip_lower_nonblank)
  ultimately have "\<not> (\<exists>a\<in>set l. strip a \<noteq> [] \<and> lower (strip a) \<notin> set valid_allergens)"
    by blast
  with Inr show ?thesis by (auto simp: Full_reported in_errors_at image_iff)
qed

lemma allergens_error_names_first:
  assumes "(''allergens'', e) \<in> set (reported (FullAnalysisRequest_construct name ings (Some l) avoid))"
  shows "\<exists>bad ys zs. strip_lower_nonblank l = ys @ bad # zs \<and> set ys \<subseteq> set valid_allergens \<and>
       bad \<notin> set valid_allergens \<and>
       e = value_error (''Invalid allergen '' @ [CHR 0x27] @ bad @ [CHR 0x27] @
             ''. Valid: eggs, fish, milk, peanuts, shellfish, soy, tree_nuts, wheat'')"
proof -
  from assms have "validate_allergens (Some l) = Inl e"
    by (auto simp: Full_reported in_errors_at)
  from validate_allergens_Inl [OF this] show ?thesis
    by (simp add: invalid_allergen_message_eq)
qed



lemma allergens_stored:
  assumes "FullAnalysisRequest_construct name ings (Some l) avoid = Inr obj"
  shows "allergens obj = Some (map (\<lambda>a. lower (strip a)) (filter (\<lambda>a. strip a \<noteq> []) l))"
    and "allergens obj = Some l' \<Longrightarrow> a \<in> set l' \<Longrightarrow>
           strip a = a \<and> lower a = a \<and> a \<in> set valid_allergens"
proof -
  from assms have sub: "set (strip_lower_nonblank l) \<subseteq> set valid_allergens"
    and obj: "allergens obj = Some (strip_lower_nonblank l)"
    by (auto simp: Full_construct_Inr validate_allergens_Inr)
  from obj show "allergens obj = Some (map (\<lambda>a. lower (strip a)) (filter (\<lambda>a. strip a \<noteq> []) l))"
    by (simp only: strip_lower_nonblank_def)
  assume "allergens obj = Some l'" "a \<in> set l'"
  with obj have "a \<in> set (strip_lower_nonblank l)" by simp
  with sub have "a \<in> set valid_allergens" by (rule subsetD)
  then show "strip a = a \<and> lower a = a \<and> a \<in> set valid_allergens"
    using valid_allergens_normal [of a] by simp
qed

lemma allergens_rejected:
  assumes "\<exists>a\<in>set l. strip a \<noteq> [] \<and> lower (strip a) \<notin> set valid_allergens"
  shows "\<exists>errs. FullAnalysisRequest_construct name ings (Some l) avoid = Inl errs"
proof -
  let ?r = "FullAnalysisRequest_construct name ings (Some l) avoid"
  from assms have "''allergens'' \<in> fst ` set (reported ?r)" by (simp only: allergens_error_iff)
  then have "reported ?r \<noteq> []" by auto
  then show "\<exists>errs. ?r = Inl errs" by (cases ?r) simp_all
qed

lemma allergens_error_names_first':
  assumes "(''allergens'', e) \<in> set (reported (FullAnalysisRequest_construct name ings (Some l) avoid))"
  shows "\<exists>bad ys zs.
         map (\<lambda>a. lower (strip a)) (filter (\<lambda>a. strip a \<noteq> []) l) = ys @ bad # zs \<and>
         set ys \<subseteq> set valid_allergens \<and> bad \<notin> set valid_allergens \<and>
         e = value_error (''Invalid allergen '' @ [CHR 0x27] @ bad @ [CHR 0x27] @
               ''. Valid: eggs, fish, milk, peanuts, shellfish, soy, tree_nuts, wheat'')"
  using allergens_error_names_first [OF assms] by (simp only: strip_lower_nonblank_def)


text \<open>
  C1, as stated: every allergens list with an entry outside the set fails. It does not:
  an entry is trimmed and lowercased before it is looked up, and an entry that is empty
  after trimming is dropped before the loop. \<open>"MILK"\<close> and \<open>" "\<close> are not in the set, nor
  is the normal form of \<open>" "\<close>, and the list of the two is accepted and stored as
  \<open>["milk"]\<close>.
\<close>

theorem allergens_unnormalised_entry_counterexample:
  "''MILK'' \<notin> set valid_allergens \<and> '' '' \<notin> set valid_allergens \<and>
   lower (strip '' '') \<notin> set valid_allergens \<and>
   FullAnalysisRequest_construct ''Pancakes'' None (Some [''MILK'', '' '']) None =
     Inr \<lparr>full_recipe_name = ''Pancakes'', full_ingredients = None,
          allergens = Some [''milk''], avoid_ingredients = None\<rparr>"
  by code_simp

text \<open>
  C1, amended. Every entry stored in \<open>allergens\<close> is trimmed, lowercase and in the set of
  the eight allergens; the stored list is the trimmed, lowercased entries that were not
  blank, in their order. The field \<open>allergens\<close> is reported exactly when some entry is
  non-empty after trimming and, trimmed and lowercased, is not in the set; the
  construction then fails and nothing is stored. The error names the first such entry in
  its trimmed lowercase form, and lists the valid set sorted alphabetically.
\<close>

theorem allergens_normalised_or_rejected:
  "(FullAnalysisRequest_construct name ings (Some l) avoid = Inr obj \<longrightarrow>
      allergens obj = Some (map (\<lambda>a. lower (strip a)) (filter (\<lambda>a. strip a \<noteq> []) l)) \<and>
      (\<forall>l'. allergens obj = Some l' \<longrightarrow>
         (\<forall>a\<in>set l'. strip a = a \<and> lower a = a \<and> a \<in> set valid_allergens))) \<and>
   (''allergens'' \<in> fst ` set (reported (FullAnalysisRequest_construct name ings (Some l) avoid)) \<longleftrightarrow>
      (\<exists>a\<in>set l. strip a \<noteq> [] \<and> lower (strip a) \<notin> set valid_allergens)) \<and>
   ((\<exists>a\<in>set l. strip a \<noteq> [] \<and> lower (strip a) \<notin> set valid_allergens) \<longrightarrow>
      (\<exists>errs. FullAnalysisRequest_construct name ings (Some l) avoid = Inl errs)) \<and>
   ((''allergens'', e) \<in> set (reported (FullAnalysisRequest_construct name ings (Some l) avoid)) \<longrightarrow>
      (\<exists>bad ys zs.
         map (\<lambda>a. lower (strip a)) (filter (\<lambda>a. strip a \<noteq> []) l) = ys @ bad # zs \<and>
         set ys \<subseteq> set valid_allergens \<and> bad \<notin> set valid_allergens \<and>
         e = value_error (''Invalid allergen '' @ [CHR 0x27] @ bad @ [CHR 0x27] @
               ''. Valid: eggs, fish, milk, peanuts, shellfish, soy, tree_nuts, wheat'')))"
proof (intro conjI impI allI ballI)
  assume "FullAnalysisRequest_construct name ings (Some l) avoid = Inr obj"
  then show "allergens obj = Some (map (\<lambda>a. lower (strip a)) (filter (\<lambda>a. strip a \<noteq> []) l))"
    by (rule allergens_stored(1))
next
  fix l' a
  assume "FullAnalysisRequest_construct name ings (Some l) avoid = Inr obj"
    "allergens obj = Some l'" "a \<in> set l'"
  then have *: "strip a = a \<and> lower a = a \<and> a \<in> set valid_allergens"
    by (rule allergens_stored(2))
  from * show "strip a = a" by (rule conjunct1)
  from * show "lower a = a" by (elim conjE)
  from * show "a \<in> set valid_allergens" by (elim conjE)
next
  show "''allergens'' \<in> fst ` set (reported (FullAnalysisRequest_construct name ings (Some l) avoid)) \<longleftrightarrow>
      (\<exists>a\<in>set l. strip a \<noteq> [] \<and> lower (strip a) \<notin> set valid_allergens)"
    by (rule allergens_error_iff)
next
  assume "\<exists>a\<in>set l. strip a \<noteq> [] \<and> lower (strip a) \<notin> set valid_allergens"
  then show "\<exists>errs. FullAnalysisRequest_construct name ings (Some l) avoid = Inl errs"
    by (rule allergens_rejected)
next
  assume "(''allergens'', e) \<in> set (reported (FullAnalysisRequest_construct name ings (Some l) avoid))"
  then show "\<exists>bad ys zs.
         map (\<lambda>a. lower (strip a)) (filter (\<lambda>a. strip a \<noteq> []) l) = ys @ bad # zs \<and>
         set ys \<subseteq> set valid_allergens \<and> bad \<notin> set valid_allergens \<and>
         e = value_error (''Invalid allergen '' @ [CHR 0x27] @ bad @ [CHR 0x27] @
               ''. Valid: eggs, fish, milk, peanuts, shellfish, soy, tree_nuts, wheat'')"
    by (rule allergens_error_names_first')
qed


theorem allergens_normalised_or_rejected_witness:
  "FullAnalysisRequest_construct ''Pancakes'' None (Some ['' Milk '', ''EGGS'', '' '']) None =
     Inr \<lparr>full_recipe_name = ''Pancakes'', full_ingredients = None,
          allergens = Some [''milk'', ''eggs''], avoid_ingredients = None\<rparr> \<and>
   (\<exists>errs. FullAnalysisRequest_construct ''Pancakes'' None (Some [''milk'', '' Gluten '']) None =
      Inl errs) \<and>
   reported (FullAnalysisRequest_construct ''Pancakes'' None (Some [''milk'', '' Gluten '']) None) =
     [(''allergens'', value_error (''Invalid allergen '' @ [CHR 0x27] @ ''gluten'' @ [CHR 0x27] @
         ''. Valid: eggs, fish, milk, peanuts, shellfish, soy, tree_nuts, wheat''))]"
proof -
  have ok: "FullAnalysisRequest_construct ''Pancakes'' None (Some ['' Milk '', ''EGGS'', '' '']) None =
     Inr \<lparr>full_recipe_name = ''Pancakes'', full_ingredients = None,
          allergens = Some [''milk'', ''eggs''], avoid_ingredients = None\<rparr>"
    by code_simp
  have "strip '' Gluten '' \<noteq> [] \<and> lower (strip '' Gluten '') \<notin> set valid_allergens"
    by code_simp
  then have bad: "\<exists>a\<in>set [''milk'', '' Gluten ''].
      strip a \<noteq> [] \<and> lower (strip a) \<notin> set valid_allergens"
    by simp
  have rej: "\<exists>errs. FullAnalysisRequest_construct ''Pancakes'' None
      (Some [''milk'', '' Gluten '']) None = Inl errs"
    using allergens_normalised_or_rejected
      [of "''Pancakes''" None "[''milk'', '' Gluten '']" None] bad
    by blast
  have msg: "reported (FullAnalysisRequest_construct ''Pancakes'' None
      (Some [''milk'', '' Gluten '']) None) =
     [(''allergens'', value_error (''Invalid allergen '' @ [CHR 0x27] @ ''gluten'' @ [CHR 0x27] @
         ''. Valid: eggs, fish, milk, peanuts, shellfish, soy, tree_nuts, wheat''))]"
    by code_simp
  from ok rej msg show ?thesis by (intro conjI)
qed

section \<open>What is trimmed and what is not\<close>

lemma ingredients_stored_trimmed:
  assumes "FullAnalysisRequest_construct name ings alls avoid = Inr obj"
    and "full_ingredients obj = Some l" and "s \<in> set l"
  shows "strip s = s"
proof (cases ings)
  case None
  with assms(1) have "full_ingredients obj = None"
    by (auto simp: Full_construct_Inr validate_ingredients_def)
  with assms(2) show ?thesis by simp
next
  case (Some l0)
  with assms(1) have "full_ingredients obj = Some (strip_nonblank l0)"
    by (auto simp: Full_construct_Inr validate_ingredients_Some split: if_splits)
  with assms(2,3) have "s \<in> set (strip_nonblank l0)" by simp
  then show ?thesis by (simp add: strip_nonblank_trimmed)
qed

lemma allergens_stored_trimmed:
  assumes "FullAnalysisRequest_construct name ings alls avoid = Inr obj"
    and "allergens obj = Some l" and "s \<in> set l"
  shows "strip s = s"
proof (cases alls)
  case None
  with assms(1) have "allergens obj = None"
    by (auto simp: Full_construct_Inr validate_allergens_def)
  with assms(2) show ?thesis by simp
next
  case (Some l0)
  with assms(1) have "FullAnalysisRequest_construct name ings (Some l0) avoid = Inr obj"
    by simp
  from allergens_stored(2) [OF this assms(2,3)] show ?thesis by (rule conjunct1)
qed

lemma avoid_ingredients_stored:
  "FullAnalysisRequest_construct name ings alls avoid = Inr obj \<Longrightarrow>
     avoid_ingredients obj = avoid"
  by (auto simp: Full_construct_Inr)

text \<open>
  C7, as stated: every string stored in \<open>ingredients\<close>, \<open>allergens\<close> and
  \<open>avoid_ingredients\<close> equals its trimmed form. \<open>avoid_ingredients\<close> has no validator, and
  its strings are stored as supplied.
\<close>

theorem avoid_ingredients_untrimmed_counterexample:
  "FullAnalysisRequest_construct ''Pancakes'' None None (Some ['' butter '']) =
     Inr \<lparr>full_recipe_name = ''Pancakes'', full_ingredients = None, allergens = None,
          avoid_ingredients = Some ['' butter '']\<rparr> \<and>
   strip '' butter '' \<noteq> '' butter ''"
  by code_simp

text \<open>
  C7, amended. In a constructed \<open>FullAnalysisRequest\<close>, every string stored in
  \<open>ingredients\<close> and in \<open>allergens\<close> equals its trimmed form, and \<open>avoid_ingredients\<close> is
  the list that was supplied, unchanged.
\<close>

theorem validated_lists_trimmed:
  "FullAnalysisRequest_construct name ings alls avoid = Inr obj \<longrightarrow>
     (\<forall>l. full_ingredients obj = Some l \<longrightarrow> (\<forall>s\<in>set l. strip s = s)) \<and>
     (\<forall>l. allergens obj = Some l \<longrightarrow> (\<forall>s\<in>set l. strip s = s)) \<and>
     avoid_ingredients obj = avoid"
proof (intro conjI impI allI ballI)
  fix l s
  assume "FullAnalysisRequest_construct name ings alls avoid = Inr obj"
    "full_ingredients obj = Some l" "s \<in> set l"
  then show "strip s = s" by (rule ingredients_stored_trimmed)
next
  fix l s
  assume "FullAnalysisRequest_construct name ings alls avoid = Inr obj"
    "allergens obj = Some l" "s \<in> set l"
  then show "strip s = s" by (rule allergens_stored_trimmed)
next
  assume "FullAnalysisRequest_construct name ings alls avoid = Inr obj"
  then show "avoid_ingredients obj = avoid" by (rule avoid_ingredients_stored)
qed

theorem validated_lists_trimmed_witness:
  "FullAnalysisRequest_construct ''Pancakes'' (Some ['' flour '', ''  '']) (Some ['' Milk ''])
       (Some ['' butter '']) =
     Inr \<lparr>full_recipe_name = ''Pancakes'', full_ingredients = Some [''flour''],
          allergens = Some [''milk''], avoid_ingredients = Some ['' butter '']\<rparr> \<and>
   strip ''flour'' = ''flour'' \<and> strip ''milk'' = ''milk''"
proof -
  have ok: "FullAnalysisRequest_construct ''Pancakes'' (Some ['' flour '', ''  ''])
       (Some ['' Milk '']) (Some ['' butter '']) =
     Inr \<lparr>full_recipe_name = ''Pancakes'', full_ingredients = Some [''flour''],
          allergens = Some [''milk''], avoid_ingredients = Some ['' butter '']\<rparr>"
    by code_simp
  from validated_lists_trimmed
    [of "''Pancakes''" "Some ['' flour '', ''  '']" "Some ['' Milk '']" "Some ['' butter '']"
      "\<lparr>full_recipe_name = ''Pancakes'', full_ingredients = Some [''flour''],
          allergens = Some [''milk''], avoid_ingredients = Some ['' butter '']\<rparr>"] ok
  have "strip ''flour'' = ''flour'' \<and> strip ''milk'' = ''milk''"
    by simp
  with ok show ?thesis by (intro conjI) simp_all
qed

section \<open>Fields without constraints\<close>

lemma str_field_unconstrained [simp]: "str_field None None v = Inr v"
  by (simp add: str_field_def min_length_check_def max_length_check_def and_then_def)

lemma int_field_unconstrained [simp]: "int_field None None v = Inr v"
  by (simp add: int_field_def)

lemma optional_str_unconstrained [simp]: "optional (str_field None None) v = Inr v"
  by (cases v) (simp_all add: optional_def)

lemma optional_int_unconstrained [simp]: "optional (int_field None None) v = Inr v"
  by (cases v) (simp_all add: optional_def)

text \<open>
  C9. \<open>RecipeBasic\<close> validates nothing beyond the types: for all strings \<open>id\<close> and \<open>name\<close>
  (the empty string and blank strings too) and all integers \<open>prep_time\<close>, \<open>cook_time\<close> and
  \<open>servings\<close> (zero and negative ones too) the construction succeeds, and every supplied
  value is stored as it is; absent ingredients are the empty list.
\<close>

theorem RecipeBasic_stores_unchanged:
  "RecipeBasic_construct i n c d ings ins pt ct sv =
     Inr \<lparr>basic_id = i, basic_name = n, basic_cuisine = c, basic_diet_type = d,
          basic_ingredients = (case ings of None \<Rightarrow> [] | Some l \<Rightarrow> l),
          instructions = ins, prep_time = pt, cook_time = ct, servings = sv\<rparr>"
  by (cases ings) (simp_all add: RecipeBasic_construct_def with_default_def any_field_def)

section \<open>The count of a quick meal response\<close>

lemma int_field_ge:
  "int_field (Some b) None v = (if v < b then Inl greater_than_equal else Inr v)"
  by (simp add: int_field_def)

text \<open>
  C10. \<open>QuickMealResponse\<close> does not compare \<open>total_found\<close> with the meals: for every list
  of meals and every \<open>n \<ge> 0\<close> the construction succeeds and stores \<open>total_found = n\<close>,
  whatever the length of the list, and it fails only when \<open>total_found\<close> is negative.
\<close>

theorem total_found_independent_of_meals:
  "((\<exists>obj. QuickMealResponse_construct ms n fa tip = Inr obj) \<longleftrightarrow> 0 \<le> n) \<and>
   (0 \<le> n \<longrightarrow>
      QuickMealResponse_construct ms n fa tip =
        Inr \<lparr>meals = ms, total_found = n, filters_applied = fa,
             psychological_tip =
               (case tip of None \<Rightarrow> default_psychological_tip | Some t \<Rightarrow> t)\<rparr>) \<and>
   (n < 0 \<longrightarrow>
      QuickMealResponse_construct ms n fa tip = Inl [(''total_found'', greater_than_equal)])"
  by (cases tip)
    (simp_all add: QuickMealResponse_construct_def with_default_def any_field_def int_field_ge)

theorem total_found_independent_of_meals_witness:
  "QuickMealResponse_construct [] 15 (Map.empty :: string \<rightharpoonup> int) None =
     Inr \<lparr>meals = [], total_found = 15, filters_applied = Map.empty,
          psychological_tip = default_psychological_tip\<rparr> \<and>
   int (length ([] :: QuickMealRecipe list)) \<noteq> 15 \<and>
   QuickMealResponse_construct [] (-1) (Map.empty :: string \<rightharpoonup> int) None =
     Inl [(''total_found'', greater_than_equal)]"
  using total_found_independent_of_meals [of "[]" 15 "Map.empty :: string \<rightharpoonup> int" None]
    total_found_independent_of_meals [of "[]" "-1" "Map.empty :: string \<rightharpoonup> int" None]
  by simp

section \<open>The ranges of the search filters\<close>

lemma info_data_simps [simp]: "info_data (Inr v) = Some v" "info_data (Inl e) = None"
  by (simp_all add: info_data_def)

lemma float_field_ge:
  "float_field (Some b) None v = (if float_lt v b then Inl greater_than_equal else Inr v)"
  by (simp add: float_field_def)

lemma float_field_ge_le:
  "float_field (Some lo) (Some hi) v =
     (if float_lt hi v then Inl less_than_equal
      else if float_lt v lo then Inl greater_than_equal else Inr v)"
  by (simp add: float_field_def)

lemma min_calories_field:
  "optional (int_field (Some 0) None) minc =
     (case minc of None \<Rightarrow> Inr None
      | Some a \<Rightarrow> if a < 0 then Inl greater_than_equal else Inr (Some a))"
  by (cases minc) (simp_all add: optional_def int_field_ge)

lemma max_calories_field:
  "and_then (optional (int_field (Some 0) None) maxc) (\<lambda>v. validate_calorie_range v data) =
     (case maxc of
        None \<Rightarrow> Inr None
      | Some b \<Rightarrow>
          if b < 0 then Inl greater_than_equal
          else (case data of
                  Some (Some a) \<Rightarrow>
                    if b < a
                    then Inl (value_error ''max_calories must be greater than min_calories'')
                    else Inr (Some b)
                | _ \<Rightarrow> Inr (Some b)))"
  by (cases maxc)
    (simp_all add: and_then_def optional_def int_field_ge validate_calorie_range_def
      split: option.splits)

lemma min_protein_field:
  "optional (float_field (Some (Fin 0)) None) minp =
     (case minp of None \<Rightarrow> Inr None
      | Some a \<Rightarrow> if float_lt a (Fin 0) then Inl greater_than_equal else Inr (Some a))"
  by (cases minp) (simp_all add: optional_def float_field_ge)

lemma max_protein_field:
  "and_then (optional (float_field (Some (Fin 0)) None) maxp)
       (\<lambda>v. validate_protein_range v data) =
     (case maxp of
        None \<Rightarrow> Inr None
      | Some b \<Rightarrow>
          if float_lt b (Fin 0) then Inl greater_than_equal
          else (case data of
                  Some (Some a) \<Rightarrow>
                    if float_lt b a
                    then Inl (value_error ''max_protein must be greater than min_protein'')
                    else Inr (Some b)
                | _ \<Rightarrow> Inr (Some b)))"
  by (cases maxp)
    (simp_all add: and_then_def optional_def float_field_ge validate_protein_range_def
      split: option.splits)

text \<open>The errors that the calorie pair and the protein pair contribute.\<close>

lemma calorie_errors:
  "errors_at ''min_calories'' (optional (int_field (Some 0) None) minc) @
   errors_at ''max_calories''
     (and_then (optional (int_field (Some 0) None) maxc)
        (\<lambda>v. validate_calorie_range v (info_data (optional (int_field (Some 0) None) minc)))) =
   (case minc of
      None \<Rightarrow> []
    | Some a \<Rightarrow> if a < 0 then [(''min_calories'', greater_than_equal)] else []) @
   (case maxc of
      None \<Rightarrow> []
    | Some b \<Rightarrow>
        if b < 0 then [(''max_calories'', greater_than_equal)]
        else (case minc of
                None \<Rightarrow> []
              | Some a \<Rightarrow>
                  if 0 \<le> a \<and> b < a
                  then [(''max_calories'',
                         value_error ''max_calories must be greater than min_calories'')]
                  else []))"
  unfolding max_calories_field
  by (cases minc; cases maxc) (simp_all add: min_calories_field)

lemma protein_errors:
  "errors_at ''min_protein'' (optional (float_field (Some (Fin 0)) None) minp) @
   errors_at ''max_protein''
     (and_then (optional (float_field (Some (Fin 0)) None) maxp)
        (\<lambda>v. validate_protein_range v
           (info_data (optional (float_field (Some (Fin 0)) None) minp)))) =
   (case minp of
      None \<Rightarrow> []
    | Some a \<Rightarrow> if float_lt a (Fin 0) then [(''min_protein'', greater_than_equal)] else []) @
   (case maxp of
      None \<Rightarrow> []
    | Some b \<Rightarrow>
        if float_lt b (Fin 0) then [(''max_protein'', greater_than_equal)]
        else (case minp of
                None \<Rightarrow> []
              | Some a \<Rightarrow>
                  if \<not> float_lt a (Fin 0) \<and> float_lt b a
                  then [(''max_protein'',
                         value_error ''max_protein must be greater than min_protein'')]
                  else []))"
  unfolding max_protein_field
  by (cases minp; cases maxp) (simp_all add: min_protein_field)


lemma Search_reported:
  "reported (RecipeSearchFilters_construct c d minc maxc minp maxp) =
     ((case minc of
         None \<Rightarrow> []
       | Some a \<Rightarrow> if a < 0 then [(''min_calories'', greater_than_equal)] else []) @
      (case maxc of
         None \<Rightarrow> []
       | Some b \<Rightarrow>
           if b < 0 then [(''max_calories'', greater_than_equal)]
           else (case minc of
                   None \<Rightarrow> []
                 | Some a \<Rightarrow>
                     if 0 \<le> a \<and> b < a
                     then [(''max_calories'',
                            value_error ''max_calories must be greater than min_calories'')]
                     else []))) @
     ((case minp of
         None \<Rightarrow> []
       | Some a \<Rightarrow> if float_lt a (Fin 0) then [(''min_protein'', greater_than_equal)] else []) @
      (case maxp of
         None \<Rightarrow> []
       | Some b \<Rightarrow>
           if float_lt b (Fin 0) then [(''max_protein'', greater_than_equal)]
           else (case minp of
                   None \<Rightarrow> []
                 | Some a \<Rightarrow>
                     if \<not> float_lt a (Fin 0) \<and> float_lt b a
                     then [(''max_protein'',
                            value_error ''max_protein must be greater than min_protein'')]
                     else [])))"
proof -
  have "reported (RecipeSearchFilters_construct c d minc maxc minp maxp) =
     (errors_at ''min_calories'' (optional (int_field (Some 0) None) minc) @
      errors_at ''max_calories''
        (and_then (optional (int_field (Some 0) None) maxc)
           (\<lambda>v. validate_calorie_range v
              (info_data (optional (int_field (Some 0) None) minc))))) @
     (errors_at ''min_protein'' (optional (float_field (Some (Fin 0)) None) minp) @
      errors_at ''max_protein''
        (and_then (optional (float_field (Some (Fin 0)) None) maxp)
           (\<lambda>v. validate_protein_range v
              (info_data (optional (float_field (Some (Fin 0)) None) minp)))))"
    by (simp add: RecipeSearchFilters_construct_def Let_def split: sum.splits)
  then show ?thesis by (simp only: calorie_errors protein_errors)
qed

lemma Search_success:
  "(\<exists>obj. RecipeSearchFilters_construct c d minc maxc minp maxp = Inr obj) \<longleftrightarrow>
     reported (RecipeSearchFilters_construct c d minc maxc minp maxp) = []"
  by (simp add: RecipeSearchFilters_construct_def Let_def split: sum.splits)

lemma Search_stores:
  assumes "RecipeSearchFilters_construct c d minc maxc minp maxp = Inr obj"
  shows "obj = \<lparr>search_cuisine = c, search_diet_type = d, min_calories = minc,
            max_calories = maxc, min_protein = minp, max_protein = maxp\<rparr>"
proof -
  from assms obtain a b x y where
    r3: "optional (int_field (Some 0) None) minc = Inr a" and
    r4: "and_then (optional (int_field (Some 0) None) maxc)
       (\<lambda>v. validate_calorie_range v (info_data (optional (int_field (Some 0) None) minc)))
       = Inr b" and
    r5: "optional (float_field (Some (Fin 0)) None) minp = Inr x" and
    r6: "and_then (optional (float_field (Some (Fin 0)) None) maxp)
       (\<lambda>v. validate_protein_range v (info_data (optional (float_field (Some (Fin 0)) None) minp)))
       = Inr y"
    and obj: "obj = \<lparr>search_cuisine = c, search_diet_type = d, min_calories = a,
            max_calories = b, min_protein = x, max_protein = y\<rparr>"
    by (auto simp: RecipeSearchFilters_construct_def Let_def split: sum.splits)
  from r3 have "a = minc"
    by (auto simp: min_calories_field split: option.splits if_splits)
  moreover from r4 have "b = maxc"
    unfolding max_calories_field by (auto split: option.splits if_splits)
  moreover from r5 have "x = minp"
    by (auto simp: min_protein_field split: option.splits if_splits)
  moreover from r6 have "y = maxp"
    unfolding max_protein_field by (auto split: option.splits if_splits)
  ultimately show ?thesis using obj by simp
qed


lemma Search_Inr_iff:
  "RecipeSearchFilters_construct c d minc maxc minp maxp =
     Inr \<lparr>search_cuisine = c, search_diet_type = d, min_calories = minc,
          max_calories = maxc, min_protein = minp, max_protein = maxp\<rparr> \<longleftrightarrow>
   reported (RecipeSearchFilters_construct c d minc maxc minp maxp) = []"
  using Search_success [of c d minc maxc minp maxp] Search_stores [of c d minc maxc minp maxp]
  by blast

lemma calories_both_reported:
  assumes "0 \<le> a" "0 \<le> b"
  shows "(''min_calories'' \<notin>
            fst ` set (reported (RecipeSearchFilters_construct c d (Some a) (Some b) minp maxp)) \<and>
          ''max_calories'' \<notin>
            fst ` set (reported (RecipeSearchFilters_construct c d (Some a) (Some b) minp maxp)))
         \<longleftrightarrow> a \<le> b"
  using assms by (auto simp: Search_reported image_Un split: option.splits if_splits)

lemma calories_both_success:
  assumes "0 \<le> a" "0 \<le> b"
  shows "(\<exists>obj. RecipeSearchFilters_construct c d (Some a) (Some b) minp maxp = Inr obj) \<longleftrightarrow>
         a \<le> b \<and> (\<exists>obj. RecipeSearchFilters_construct c d None None minp maxp = Inr obj)"
  using assms unfolding Search_success Search_reported by auto

lemma calories_only_success:
  assumes "0 \<le> a" "0 \<le> b"
  shows "RecipeSearchFilters_construct c d (Some a) (Some b) None None =
           Inr \<lparr>search_cuisine = c, search_diet_type = d, min_calories = Some a,
                max_calories = Some b, min_protein = None, max_protein = None\<rparr> \<longleftrightarrow> a \<le> b"
  using assms unfolding Search_Inr_iff Search_reported by auto

lemma calories_absent_no_order_error:
  assumes "minc = None \<or> maxc = None"
  shows "(''max_calories'', value_error ''max_calories must be greater than min_calories'') \<notin>
           set (reported (RecipeSearchFilters_construct c d minc maxc minp maxp))"
  using assms by (auto simp: Search_reported split: option.splits if_splits)

lemma calories_absent_reported:
  assumes "minc = None \<or> maxc = None"
    and "\<forall>x. minc = Some x \<longrightarrow> 0 \<le> x" and "\<forall>x. maxc = Some x \<longrightarrow> 0 \<le> x"
  shows "''min_calories'' \<notin>
           fst ` set (reported (RecipeSearchFilters_construct c d minc maxc minp maxp)) \<and>
         ''max_calories'' \<notin>
           fst ` set (reported (RecipeSearchFilters_construct c d minc maxc minp maxp)) \<and>
         ((\<exists>obj. RecipeSearchFilters_construct c d minc maxc minp maxp = Inr obj) \<longleftrightarrow>
          (\<exists>obj. RecipeSearchFilters_construct c d None None minp maxp = Inr obj))"
proof -
  from assms have cal: "(case minc of
         None \<Rightarrow> []
       | Some a \<Rightarrow> if a < 0 then [(''min_calories'', greater_than_equal)] else []) @
      (case maxc of
         None \<Rightarrow> []
       | Some b \<Rightarrow>
           if b < 0 then [(''max_calories'', greater_than_equal)]
           else (case minc of
                   None \<Rightarrow> []
                 | Some a \<Rightarrow>
                     if 0 \<le> a \<and> b < a
                     then [(''max_calories'',
                            value_error ''max_calories must be greater than min_calories'')]
                     else [])) = []"
    by (cases minc; cases maxc) auto
  show ?thesis
    unfolding Search_success Search_reported cal
    by (auto simp: image_Un split: option.splits if_splits)
qed


lemma protein_both_reported:
  assumes "float_le (Fin 0) p" "float_le (Fin 0) q"
  shows "(''min_protein'' \<notin>
            fst ` set (reported (RecipeSearchFilters_construct c d minc maxc (Some p) (Some q))) \<and>
          ''max_protein'' \<notin>
            fst ` set (reported (RecipeSearchFilters_construct c d minc maxc (Some p) (Some q))))
         \<longleftrightarrow> float_le p q"
  using assms
  by (auto simp: Search_reported image_Un float_le_def split: option.splits if_splits)

lemma protein_both_success:
  assumes "float_le (Fin 0) p" "float_le (Fin 0) q"
  shows "(\<exists>obj. RecipeSearchFilters_construct c d minc maxc (Some p) (Some q) = Inr obj) \<longleftrightarrow>
         float_le p q \<and> (\<exists>obj. RecipeSearchFilters_construct c d minc maxc None None = Inr obj)"
  using assms unfolding Search_success Search_reported by (auto simp: float_le_def)

lemma protein_only_success:
  assumes "float_le (Fin 0) p" "float_le (Fin 0) q"
  shows "RecipeSearchFilters_construct c d None None (Some p) (Some q) =
           Inr \<lparr>search_cuisine = c, search_diet_type = d, min_calories = None,
                max_calories = None, min_protein = Some p, max_protein = Some q\<rparr> \<longleftrightarrow>
         float_le p q"
  using assms unfolding Search_Inr_iff Search_reported by (auto simp: float_le_def)

lemma protein_absent_no_order_error:
  assumes "minp = None \<or> maxp = None"
  shows "(''max_protein'', value_error ''max_protein must be greater than min_protein'') \<notin>
           set (reported (RecipeSearchFilters_construct c d minc maxc minp maxp))"
  using assms by (auto simp: Search_reported split: option.splits if_splits)

lemma protein_absent_reported:
  assumes "minp = None \<or> maxp = None"
    and "\<forall>x. minp = Some x \<longrightarrow> float_le (Fin 0) x"
    and "\<forall>x. maxp = Some x \<longrightarrow> float_le (Fin 0) x"
  shows "''min_protein'' \<notin>
           fst ` set (reported (RecipeSearchFilters_construct c d minc maxc minp maxp)) \<and>
         ''max_protein'' \<notin>
           fst ` set (reported (RecipeSearchFilters_construct c d minc maxc minp maxp)) \<and>
         ((\<exists>obj. RecipeSearchFilters_construct c d minc maxc minp maxp = Inr obj) \<longleftrightarrow>
          (\<exists>obj. RecipeSearchFilters_construct c d minc maxc None None = Inr obj))"
proof -
  from assms have prot: "(case minp of
         None \<Rightarrow> []
       | Some a \<Rightarrow> if float_lt a (Fin 0) then [(''min_protein'', greater_than_equal)] else []) @
      (case maxp of
         None \<Rightarrow> []
       | Some b \<Rightarrow>
           if float_lt b (Fin 0) then [(''max_protein'', greater_than_equal)]
           else (case minp of
                   None \<Rightarrow> []
                 | Some a \<Rightarrow>
                     if \<not> float_lt a (Fin 0) \<and> float_lt b a
                     then [(''max_protein'',
                            value_error ''max_protein must be greater than min_protein'')]
                     else [])) = []"
    by (cases minp; cases maxp) (auto simp: float_le_def)
  show ?thesis
    unfolding Search_success Search_reported prot
    by (auto simp: image_Un split: option.splits if_splits)
qed

text \<open>
  C3. With \<open>min_calories\<close> and \<open>max_calories\<close> both present and each non-negative, the
  pair is accepted (neither field is reported) iff \<open>max_calories \<ge> min_calories\<close>; the
  construction then succeeds iff moreover the rest of the payload is accepted on its own,
  and with no protein field it succeeds iff \<open>max_calories \<ge> min_calories\<close>. When either
  of the pair is absent the ordering error is never raised, and a pair whose present value
  is non-negative reports nothing and does not change whether the construction succeeds.
  The same holds for \<open>min_protein\<close> and \<open>max_protein\<close>.
\<close>

theorem range_checked_when_both_present:
  "(0 \<le> a \<and> 0 \<le> b \<longrightarrow>
      ((''min_calories'' \<notin>
          fst ` set (reported (RecipeSearchFilters_construct c d (Some a) (Some b) minp maxp)) \<and>
        ''max_calories'' \<notin>
          fst ` set (reported (RecipeSearchFilters_construct c d (Some a) (Some b) minp maxp)))
       \<longleftrightarrow> a \<le> b) \<and>
      ((\<exists>obj. RecipeSearchFilters_construct c d (Some a) (Some b) minp maxp = Inr obj) \<longleftrightarrow>
       a \<le> b \<and> (\<exists>obj. RecipeSearchFilters_construct c d None None minp maxp = Inr obj)) \<and>
      (RecipeSearchFilters_construct c d (Some a) (Some b) None None =
         Inr \<lparr>search_cuisine = c, search_diet_type = d, min_calories = Some a,
              max_calories = Some b, min_protein = None, max_protein = None\<rparr> \<longleftrightarrow> a \<le> b)) \<and>
   (minc = None \<or> maxc = None \<longrightarrow>
      (''max_calories'', value_error ''max_calories must be greater than min_calories'') \<notin>
         set (reported (RecipeSearchFilters_construct c d minc maxc minp maxp)) \<and>
      ((\<forall>x. minc = Some x \<longrightarrow> 0 \<le> x) \<and> (\<forall>x. maxc = Some x \<longrightarrow> 0 \<le> x) \<longrightarrow>
         ''min_calories'' \<notin>
           fst ` set (reported (RecipeSearchFilters_construct c d minc maxc minp maxp)) \<and>
         ''max_calories'' \<notin>
           fst ` set (reported (RecipeSearchFilters_construct c d minc maxc minp maxp)) \<and>
         ((\<exists>obj. RecipeSearchFilters_construct c d minc maxc minp maxp = Inr obj) \<longleftrightarrow>
          (\<exists>obj. RecipeSearchFilters_construct c d None None minp maxp = Inr obj)))) \<and>
   (float_le (Fin 0) p \<and> float_le (Fin 0) q \<longrightarrow>
      ((''min_protein'' \<notin>
          fst ` set (reported (RecipeSearchFilters_construct c d minc maxc (Some p) (Some q))) \<and>
        ''max_protein'' \<notin>
          fst ` set (reported (RecipeSearchFilters_construct c d minc maxc (Some p) (Some q))))
       \<longleftrightarrow> float_le p q) \<and>
      ((\<exists>obj. RecipeSearchFilters_construct c d minc maxc (Some p) (Some q) = Inr obj) \<longleftrightarrow>
       float_le p q \<and>
       (\<exists>obj. RecipeSearchFilters_construct c d minc maxc None None = Inr obj)) \<and>
      (RecipeSearchFilters_construct c d None None (Some p) (Some q) =
         Inr \<lparr>search_cuisine = c, search_diet_type = d, min_calories = None,
              max_calories = None, min_protein = Some p, max_protein = Some q\<rparr> \<longleftrightarrow>
       float_le p q)) \<and>
   (minp = None \<or> maxp = None \<longrightarrow>
      (''max_protein'', value_error ''max_protein must be greater than min_protein'') \<notin>
         set (reported (RecipeSearchFilters_construct c d minc maxc minp maxp)) \<and>
      ((\<forall>x. minp = Some x \<longrightarrow> float_le (Fin 0) x) \<and>
       (\<forall>x. maxp = Some x \<longrightarrow> float_le (Fin 0) x) \<longrightarrow>
         ''min_protein'' \<notin>
           fst ` set (reported (RecipeSearchFilters_construct c d minc maxc minp maxp)) \<and>
         ''max_protein'' \<notin>
           fst ` set (reported (RecipeSearchFilters_construct c d minc maxc minp maxp)) \<and>
         ((\<exists>obj. RecipeSearchFilters_construct c d minc maxc minp maxp = Inr obj) \<longleftrightarrow>
          (\<exists>obj. RecipeSearchFilters_construct c d minc maxc None None = Inr obj))))"
proof -
  have 1: "0 \<le> a \<and> 0 \<le> b \<longrightarrow>
      ((''min_calories'' \<notin>
          fst ` set (reported (RecipeSearchFilters_construct c d (Some a) (Some b) minp maxp)) \<and>
        ''max_calories'' \<notin>
          fst ` set (reported (RecipeSearchFilters_construct c d (Some a) (Some b) minp maxp)))
       \<longleftrightarrow> a \<le> b) \<and>
      ((\<exists>obj. RecipeSearchFilters_construct c d (Some a) (Some b) minp maxp = Inr obj) \<longleftrightarrow>
       a \<le> b \<and> (\<exists>obj. RecipeSearchFilters_construct c d None None minp maxp = Inr obj)) \<and>
      (RecipeSearchFilters_construct c d (Some a) (Some b) None None =
         Inr \<lparr>search_cuisine = c, search_diet_type = d, min_calories = Some a,
              max_calories = Some b, min_protein = None, max_protein = None\<rparr> \<longleftrightarrow> a \<le> b)"
    using calories_both_reported [of a b c d minp maxp]
      calories_both_success [of a b c d minp maxp] calories_only_success [of a b c d]
    by blast
  have 2: "minc = None \<or> maxc = None \<longrightarrow>
      (''max_calories'', value_error ''max_calories must be greater than min_calories'') \<notin>
         set (reported (RecipeSearchFilters_construct c d minc maxc minp maxp)) \<and>
      ((\<forall>x. minc = Some x \<longrightarrow> 0 \<le> x) \<and> (\<forall>x. maxc = Some x \<longrightarrow> 0 \<le> x) \<longrightarrow>
         ''min_calories'' \<notin>
           fst ` set (reported (RecipeSearchFilters_construct c d minc maxc minp maxp)) \<and>
         ''max_calories'' \<notin>
           fst ` set (reported (RecipeSearchFilters_construct c d minc maxc minp maxp)) \<and>
         ((\<exists>obj. RecipeSearchFilters_construct c d minc maxc minp maxp = Inr obj) \<longleftrightarrow>
          (\<exists>obj. RecipeSearchFilters_construct c d None None minp maxp = Inr obj)))"
    using calories_absent_no_order_error [of minc maxc c d minp maxp]
      calories_absent_reported [of minc maxc c d minp maxp]
    by blast
  have 3: "float_le (Fin 0) p \<and> float_le (Fin 0) q \<longrightarrow>
      ((''min_protein'' \<notin>
          fst ` set (reported (RecipeSearchFilters_construct c d minc maxc (Some p) (Some q))) \<and>
        ''max_protein'' \<notin>
          fst ` set (reported (RecipeSearchFilters_construct c d minc maxc (Some p) (Some q))))
       \<longleftrightarrow> float_le p q) \<and>
      ((\<exists>obj. RecipeSearchFilters_construct c d minc maxc (Some p) (Some q) = Inr obj) \<longleftrightarrow>
       float_le p q \<and>
       (\<exists>obj. RecipeSearchFilters_construct c d minc maxc None None = Inr obj)) \<and>
      (RecipeSearchFilters_construct c d None None (Some p) (Some q) =
         Inr \<lparr>search_cuisine = c, search_diet_type = d, min_calories = None,
              max_calories = None, min_protein = Some p, max_protein = Some q\<rparr> \<longleftrightarrow>
       float_le p q)"
    using protein_both_reported [of p q c d minc maxc]
      protein_both_success [of p q c d minc maxc] protein_only_success [of p q c d]
    by blast
  have 4: "minp = None \<or> maxp = None \<longrightarrow>
      (''max_protein'', value_error ''max_protein must be greater than min_protein'') \<notin>
         set (reported (RecipeSearchFilters_construct c d minc maxc minp maxp)) \<and>
      ((\<forall>x. minp = Some x \<longrightarrow> float_le (Fin 0) x) \<and>
       (\<forall>x. maxp = Some x \<longrightarrow> float_le (Fin 0) x) \<longrightarrow>
         ''min_protein'' \<notin>
           fst ` set (reported (RecipeSearchFilters_construct c d minc maxc minp maxp)) \<and>
         ''max_protein'' \<notin>
           fst ` set (reported (RecipeSearchFilters_construct c d minc maxc minp maxp)) \<and>
         ((\<exists>obj. RecipeSearchFilters_construct c d minc maxc minp maxp = Inr obj) \<longleftrightarrow>
          (\<exists>obj. RecipeSearchFilters_construct c d minc maxc None None = Inr obj)))"
    using protein_absent_no_order_error [of minp maxp c d minc maxc]
      protein_absent_reported [of minp maxp c d minc maxc]
    by blast
  from 1 2 3 4 show ?thesis by (intro conjI)
qed


theorem range_checked_when_both_present_witness:
  "RecipeSearchFilters_construct None None (Some 100) (Some 500) None None =
     Inr \<lparr>search_cuisine = None, search_diet_type = None, min_calories = Some 100,
          max_calories = Some 500, min_protein = None, max_protein = None\<rparr> \<and>
   RecipeSearchFilters_construct None None (Some 500) (Some 100) None None \<noteq>
     Inr \<lparr>search_cuisine = None, search_diet_type = None, min_calories = Some 500,
          max_calories = Some 100, min_protein = None, max_protein = None\<rparr> \<and>
   RecipeSearchFilters_construct None None None None (Some (Fin 10)) (Some (Fin 10)) =
     Inr \<lparr>search_cuisine = None, search_diet_type = None, min_calories = None,
          max_calories = None, min_protein = Some (Fin 10), max_protein = Some (Fin 10)\<rparr> \<and>
   (''max_calories'', value_error ''max_calories must be greater than min_calories'') \<notin>
      set (reported (RecipeSearchFilters_construct None None None (Some 100) None None)) \<and>
   (''max_protein'', value_error ''max_protein must be greater than min_protein'') \<notin>
      set (reported (RecipeSearchFilters_construct None None None (Some 100) None None))"
proof -
  have f: "float_le (Fin 0) (Fin 10)" "float_le (Fin 10) (Fin 10)"
    by (simp_all add: float_le_def)
  have i: "(0::int) \<le> 100" "(0::int) \<le> 500" "(100::int) \<le> 500" "\<not> (500::int) \<le> 100"
    by simp_all
  note t1 = range_checked_when_both_present
    [where a = 100 and b = 500 and c = None and d = None and minc = None and maxc = "Some 100"
      and minp = None and maxp = None and p = "Fin 10" and q = "Fin 10"]
  note t2 = range_checked_when_both_present
    [where a = 500 and b = 100 and c = None and d = None and minc = None and maxc = "Some 100"
      and minp = None and maxp = None and p = "Fin 10" and q = "Fin 10"]
  from t1 i f have
    "RecipeSearchFilters_construct None None (Some 100) (Some 500) None None =
       Inr \<lparr>search_cuisine = None, search_diet_type = None, min_calories = Some 100,
            max_calories = Some 500, min_protein = None, max_protein = None\<rparr>"
    "RecipeSearchFilters_construct None None None None (Some (Fin 10)) (Some (Fin 10)) =
       Inr \<lparr>search_cuisine = None, search_diet_type = None, min_calories = None,
            max_calories = None, min_protein = Some (Fin 10), max_protein = Some (Fin 10)\<rparr>"
    "(''max_calories'', value_error ''max_calories must be greater than min_calories'') \<notin>
       set (reported (RecipeSearchFilters_construct None None None (Some 100) None None))"
    "(''max_protein'', value_error ''max_protein must be greater than min_protein'') \<notin>
       set (reported (RecipeSearchFilters_construct None None None (Some 100) None None))"
    by blast+
  moreover from t2 i have
    "RecipeSearchFilters_construct None None (Some 500) (Some 100) None None \<noteq>
       Inr \<lparr>search_cuisine = None, search_diet_type = None, min_calories = Some 500,
            max_calories = Some 100, min_protein = None, max_protein = None\<rparr>"
    by blast
  ultimately show ?thesis by (intro conjI)
qed

section \<open>The scores of a recommendation\<close>

lemma score_errors:
  "errors_at loc (float_field (Some (Fin 0)) (Some (Fin 100)) v) =
     (if float_lt (Fin 100) v then [(loc, less_than_equal)]
      else if float_lt v (Fin 0) then [(loc, greater_than_equal)] else [])"
  by (simp add: float_field_ge_le)

lemma optional_score_errors:
  "errors_at loc (optional (float_field (Some (Fin 0)) (Some (Fin 100))) v) =
     (case v of
        None \<Rightarrow> []
      | Some x \<Rightarrow>
          if float_lt (Fin 100) x then [(loc, less_than_equal)]
          else if float_lt x (Fin 0) then [(loc, greater_than_equal)] else [])"
  by (cases v) (simp_all add: optional_def float_field_ge_le)

lemma Recommendation_reported:
  "reported (RecipeRecommendation_construct rcp sim hlth rel rsn) =
     (if float_lt (Fin 100) sim then [(''similarity_score'', less_than_equal)]
      else if float_lt sim (Fin 0) then [(''similarity_score'', greater_than_equal)] else []) @
     (if float_lt (Fin 100) hlth then [(''health_score'', less_than_equal)]
      else if float_lt hlth (Fin 0) then [(''health_score'', greater_than_equal)] else []) @
     (case rel of
        None \<Rightarrow> []
      | Some x \<Rightarrow>
          if float_lt (Fin 100) x then [(''relevance_score'', less_than_equal)]
          else if float_lt x (Fin 0) then [(''relevance_score'', greater_than_equal)] else [])"
proof -
  have "reported (RecipeRecommendation_construct rcp sim hlth rel rsn) =
     errors_at ''similarity_score'' (float_field (Some (Fin 0)) (Some (Fin 100)) sim) @
     errors_at ''health_score'' (float_field (Some (Fin 0)) (Some (Fin 100)) hlth) @
     errors_at ''relevance_score'' (optional (float_field (Some (Fin 0)) (Some (Fin 100))) rel)"
    by (simp add: RecipeRecommendation_construct_def Let_def any_field_def split: sum.splits)
  then show ?thesis by (simp only: score_errors optional_score_errors)
qed

lemma Recommendation_success:
  "(\<exists>obj. RecipeRecommendation_construct rcp sim hlth rel rsn = Inr obj) \<longleftrightarrow>
     reported (RecipeRecommendation_construct rcp sim hlth rel rsn) = []"
  by (simp add: RecipeRecommendation_construct_def Let_def any_field_def split: sum.splits)

lemma Recommendation_stores:
  assumes "RecipeRecommendation_construct rcp sim hlth rel rsn = Inr obj"
  shows "obj = \<lparr>recommended_recipe = rcp, similarity_score = sim, health_score = hlth,
            relevance_score = rel, reason = rsn\<rparr>"
proof -
  from assms obtain a b x where
    r2: "float_field (Some (Fin 0)) (Some (Fin 100)) sim = Inr a" and
    r3: "float_field (Some (Fin 0)) (Some (Fin 100)) hlth = Inr b" and
    r4: "optional (float_field (Some (Fin 0)) (Some (Fin 100))) rel = Inr x" and
    obj: "obj = \<lparr>recommended_recipe = rcp, similarity_score = a, health_score = b,
            relevance_score = x, reason = rsn\<rparr>"
    by (auto simp: RecipeRecommendation_construct_def Let_def any_field_def split: sum.splits)
  from r2 have "a = sim" by (auto simp: float_field_ge_le split: if_splits)
  moreover from r3 have "b = hlth" by (auto simp: float_field_ge_le split: if_splits)
  moreover from r4 have "x = rel"
    by (cases rel) (auto simp: optional_def float_field_ge_le split: if_splits)
  ultimately show ?thesis using obj by simp
qed

lemma Recommendation_Inr_iff:
  "RecipeRecommendation_construct rcp sim hlth rel rsn = Inr obj \<longleftrightarrow>
     reported (RecipeRecommendation_construct rcp sim hlth rel rsn) = [] \<and>
     obj = \<lparr>recommended_recipe = rcp, similarity_score = sim, health_score = hlth,
            relevance_score = rel, reason = rsn\<rparr>"
  using Recommendation_success [of rcp sim hlth rel rsn]
    Recommendation_stores [of rcp sim hlth rel rsn]
  by blast

lemma similarity_reported:
  "''similarity_score'' \<in> fst ` set (reported (RecipeRecommendation_construct rcp sim hlth rel rsn))
     \<longleftrightarrow> float_lt sim (Fin 0) \<or> float_lt (Fin 100) sim"
  by (auto simp: Recommendation_reported image_Un split: option.splits if_splits)

lemma health_reported:
  "''health_score'' \<in> fst ` set (reported (RecipeRecommendation_construct rcp sim hlth rel rsn))
     \<longleftrightarrow> float_lt hlth (Fin 0) \<or> float_lt (Fin 100) hlth"
  by (auto simp: Recommendation_reported image_Un split: option.splits if_splits)

lemma relevance_reported:
  "''relevance_score'' \<in> fst ` set (reported (RecipeRecommendation_construct rcp sim hlth rel rsn))
     \<longleftrightarrow> (\<exists>x. rel = Some x \<and> (float_lt x (Fin 0) \<or> float_lt (Fin 100) x))"
  by (cases rel) (auto simp: Recommendation_reported image_Un split: if_splits)

lemma Recommendation_accepted:
  "RecipeRecommendation_construct rcp sim hlth rel rsn = Inr obj \<longleftrightarrow>
     float_le (Fin 0) sim \<and> float_le sim (Fin 100) \<and>
     float_le (Fin 0) hlth \<and> float_le hlth (Fin 100) \<and>
     (\<forall>x. rel = Some x \<longrightarrow> float_le (Fin 0) x \<and> float_le x (Fin 100)) \<and>
     obj = \<lparr>recommended_recipe = rcp, similarity_score = sim, health_score = hlth,
            relevance_score = rel, reason = rsn\<rparr>"
  unfolding Recommendation_Inr_iff Recommendation_reported float_le_def
  by (cases rel) (auto split: if_splits)


lemma float_boundaries:
  "float_le (Fin 0) (Fin 0)" "float_le (Fin 0) (Fin 100)" "float_le (Fin 100) (Fin 100)"
  by (simp_all add: float_le_def)

lemma boundary_scores_accepted:
  assumes "sim = Fin 0 \<or> sim = Fin 100" and "hlth = Fin 0 \<or> hlth = Fin 100"
    and "rel = None \<or> rel = Some (Fin 0) \<or> rel = Some (Fin 100)"
  shows "RecipeRecommendation_construct rcp sim hlth rel rsn =
           Inr \<lparr>recommended_recipe = rcp, similarity_score = sim, health_score = hlth,
                relevance_score = rel, reason = rsn\<rparr>"
proof -
  from assms(1) have "float_le (Fin 0) sim \<and> float_le sim (Fin 100)"
    by (auto simp: float_boundaries)
  moreover from assms(2) have "float_le (Fin 0) hlth \<and> float_le hlth (Fin 100)"
    by (auto simp: float_boundaries)
  moreover from assms(3) have "\<forall>x. rel = Some x \<longrightarrow> float_le (Fin 0) x \<and> float_le x (Fin 100)"
    by (auto simp: float_boundaries)
  ultimately show ?thesis by (simp only: Recommendation_accepted simp_thms)
qed

lemma out_of_range_score_rejected:
  assumes "float_lt sim (Fin 0) \<or> float_lt (Fin 100) sim \<or>
           float_lt hlth (Fin 0) \<or> float_lt (Fin 100) hlth \<or>
           (\<exists>x. rel = Some x \<and> (float_lt x (Fin 0) \<or> float_lt (Fin 100) x))"
  shows "\<exists>errs. RecipeRecommendation_construct rcp sim hlth rel rsn = Inl errs"
proof -
  from assms have "\<And>obj. RecipeRecommendation_construct rcp sim hlth rel rsn \<noteq> Inr obj"
    unfolding Recommendation_accepted float_le_def by auto
  then show ?thesis by (cases "RecipeRecommendation_construct rcp sim hlth rel rsn") auto
qed

text \<open>
  C5. Each of \<open>similarity_score\<close>, \<open>health_score\<close> and \<open>relevance_score\<close> is reported
  exactly when its value is strictly below 0 or strictly above 100, whatever the other
  fields are, and the construction succeeds exactly when every supplied score lies in the
  closed range from 0 to 100, storing the values as supplied. Scores equal to 0.0 or 100.0
  succeed; a score below 0 or above 100 makes the construction fail.
\<close>

theorem score_bounds_inclusive:
  "(''similarity_score'' \<in>
       fst ` set (reported (RecipeRecommendation_construct rcp sim hlth rel rsn)) \<longleftrightarrow>
     float_lt sim (Fin 0) \<or> float_lt (Fin 100) sim) \<and>
   (''health_score'' \<in>
       fst ` set (reported (RecipeRecommendation_construct rcp sim hlth rel rsn)) \<longleftrightarrow>
     float_lt hlth (Fin 0) \<or> float_lt (Fin 100) hlth) \<and>
   (''relevance_score'' \<in>
       fst ` set (reported (RecipeRecommendation_construct rcp sim hlth rel rsn)) \<longleftrightarrow>
     (\<exists>x. rel = Some x \<and> (float_lt x (Fin 0) \<or> float_lt (Fin 100) x))) \<and>
   (RecipeRecommendation_construct rcp sim hlth rel rsn = Inr obj \<longleftrightarrow>
     float_le (Fin 0) sim \<and> float_le sim (Fin 100) \<and>
     float_le (Fin 0) hlth \<and> float_le hlth (Fin 100) \<and>
     (\<forall>x. rel = Some x \<longrightarrow> float_le (Fin 0) x \<and> float_le x (Fin 100)) \<and>
     obj = \<lparr>recommended_recipe = rcp, similarity_score = sim, health_score = hlth,
            relevance_score = rel, reason = rsn\<rparr>) \<and>
   ((sim = Fin 0 \<or> sim = Fin 100) \<and> (hlth = Fin 0 \<or> hlth = Fin 100) \<and>
    (rel = None \<or> rel = Some (Fin 0) \<or> rel = Some (Fin 100)) \<longrightarrow>
      RecipeRecommendation_construct rcp sim hlth rel rsn =
        Inr \<lparr>recommended_recipe = rcp, similarity_score = sim, health_score = hlth,
             relevance_score = rel, reason = rsn\<rparr>) \<and>
   (float_lt sim (Fin 0) \<or> float_lt (Fin 100) sim \<or>
    float_lt hlth (Fin 0) \<or> float_lt (Fin 100) hlth \<or>
    (\<exists>x. rel = Some x \<and> (float_lt x (Fin 0) \<or> float_lt (Fin 100) x)) \<longrightarrow>
      (\<exists>errs. RecipeRecommendation_construct rcp sim hlth rel rsn = Inl errs))"
proof (intro conjI impI)
  show "''similarity_score'' \<in>
       fst ` set (reported (RecipeRecommendation_construct rcp sim hlth rel rsn)) \<longleftrightarrow>
     float_lt sim (Fin 0) \<or> float_lt (Fin 100) sim"
    by (rule similarity_reported)
  show "''health_score'' \<in>
       fst ` set (reported (RecipeRecommendation_construct rcp sim hlth rel rsn)) \<longleftrightarrow>
     float_lt hlth (Fin 0) \<or> float_lt (Fin 100) hlth"
    by (rule health_reported)
  show "''relevance_score'' \<in>
       fst ` set (reported (RecipeRecommendation_construct rcp sim hlth rel rsn)) \<longleftrightarrow>
     (\<exists>x. rel = Some x \<and> (float_lt x (Fin 0) \<or> float_lt (Fin 100) x))"
    by (rule relevance_reported)
  show "RecipeRecommendation_construct rcp sim hlth rel rsn = Inr obj \<longleftrightarrow>
     float_le (Fin 0) sim \<and> float_le sim (Fin 100) \<and>
     float_le (Fin 0) hlth \<and> float_le hlth (Fin 100) \<and>
     (\<forall>x. rel = Some x \<longrightarrow> float_le (Fin 0) x \<and> float_le x (Fin 100)) \<and>
     obj = \<lparr>recommended_recipe = rcp, similarity_score = sim, health_score = hlth,
            relevance_score = rel, reason = rsn\<rparr>"
    by (rule Recommendation_accepted)
next
  assume "(sim = Fin 0 \<or> sim = Fin 100) \<and> (hlth = Fin 0 \<or> hlth = Fin 100) \<and>
    (rel = None \<or> rel = Some (Fin 0) \<or> rel = Some (Fin 100))"
  then show "RecipeRecommendation_construct rcp sim hlth rel rsn =
        Inr \<lparr>recommended_recipe = rcp, similarity_score = sim, health_score = hlth,
             relevance_score = rel, reason = rsn\<rparr>"
    by (intro boundary_scores_accepted) (elim conjE, assumption)+
next
  assume "float_lt sim (Fin 0) \<or> float_lt (Fin 100) sim \<or>
    float_lt hlth (Fin 0) \<or> float_lt (Fin 100) hlth \<or>
    (\<exists>x. rel = Some x \<and> (float_lt x (Fin 0) \<or> float_lt (Fin 100) x))"
  then show "\<exists>errs. RecipeRecommendation_construct rcp sim hlth rel rsn = Inl errs"
    by (rule out_of_range_score_rejected)
qed


theorem score_bounds_inclusive_witness:
  "RecipeRecommendation_construct
      
        \<lparr>basic_id = ''67890'', basic_name = ''Healthy Chicken Tikka'',
        basic_cuisine = Some ''Indian'', basic_diet_type = None,
        basic_ingredients = [''chicken'', ''yogurt''], instructions = None,
        prep_time = None, cook_time = None, servings = None\<rparr> (Fin 0) (Fin 100) (Some (Fin 100)) ''same cuisine'' =
     Inr \<lparr>recommended_recipe = 
        \<lparr>basic_id = ''67890'', basic_name = ''Healthy Chicken Tikka'',
        basic_cuisine = Some ''Indian'', basic_diet_type = None,
        basic_ingredients = [''chicken'', ''yogurt''], instructions = None,
        prep_time = None, cook_time = None, servings = None\<rparr>, similarity_score = Fin 0, health_score = Fin 100,
          relevance_score = Some (Fin 100), reason = ''same cuisine''\<rparr> \<and>
   (\<exists>errs. RecipeRecommendation_construct
      
        \<lparr>basic_id = ''67890'', basic_name = ''Healthy Chicken Tikka'',
        basic_cuisine = Some ''Indian'', basic_diet_type = None,
        basic_ingredients = [''chicken'', ''yogurt''], instructions = None,
        prep_time = None, cook_time = None, servings = None\<rparr> (Fin (3518440727320409 / 35184372088832)) (Fin 0) None ''same cuisine'' = Inl errs) \<and>
   (\<exists>errs. RecipeRecommendation_construct
      
        \<lparr>basic_id = ''67890'', basic_name = ''Healthy Chicken Tikka'',
        basic_cuisine = Some ''Indian'', basic_diet_type = None,
        basic_ingredients = [''chicken'', ''yogurt''], instructions = None,
        prep_time = None, cook_time = None, servings = None\<rparr> (Fin 100) (Fin (- 3602879701896397 / 36028797018963968)) None ''same cuisine'' =
        Inl errs) \<and>
   (\<exists>errs. RecipeRecommendation_construct
      
        \<lparr>basic_id = ''67890'', basic_name = ''Healthy Chicken Tikka'',
        basic_cuisine = Some ''Indian'', basic_diet_type = None,
        basic_ingredients = [''chicken'', ''yogurt''], instructions = None,
        prep_time = None, cook_time = None, servings = None\<rparr> (Fin 0) (Fin 0) (Some (Fin (- 3602879701896397 / 36028797018963968)))
        ''same cuisine'' = Inl errs)"
proof -
  have above: "float_lt (Fin 100) (Fin (3518440727320409 / 35184372088832))"
    and below: "float_lt (Fin (- 3602879701896397 / 36028797018963968)) (Fin 0)"
    by simp_all
  note t = score_bounds_inclusive [where rcp = "
        \<lparr>basic_id = ''67890'', basic_name = ''Healthy Chicken Tikka'',
        basic_cuisine = Some ''Indian'', basic_diet_type = None,
        basic_ingredients = [''chicken'', ''yogurt''], instructions = None,
        prep_time = None, cook_time = None, servings = None\<rparr>" and rsn = "''same cuisine''"]
  have "RecipeRecommendation_construct
      
        \<lparr>basic_id = ''67890'', basic_name = ''Healthy Chicken Tikka'',
        basic_cuisine = Some ''Indian'', basic_diet_type = None,
        basic_ingredients = [''chicken'', ''yogurt''], instructions = None,
        prep_time = None, cook_time = None, servings = None\<rparr> (Fin 0) (Fin 100) (Some (Fin 100)) ''same cuisine'' =
     Inr \<lparr>recommended_recipe = 
        \<lparr>basic_id = ''67890'', basic_name = ''Healthy Chicken Tikka'',
        basic_cuisine = Some ''Indian'', basic_diet_type = None,
        basic_ingredients = [''chicken'', ''yogurt''], instructions = None,
        prep_time = None, cook_time = None, servings = None\<rparr>, similarity_score = Fin 0, health_score = Fin 100,
          relevance_score = Some (Fin 100), reason = ''same cuisine''\<rparr>"
    using t [where sim = "Fin 0" and hlth = "Fin 100" and rel = "Some (Fin 100)"] by blast
  moreover have "\<exists>errs. RecipeRecommendation_construct
      
        \<lparr>basic_id = ''67890'', basic_name = ''Healthy Chicken Tikka'',
        basic_cuisine = Some ''Indian'', basic_diet_type = None,
        basic_ingredients = [''chicken'', ''yogurt''], instructions = None,
        prep_time = None, cook_time = None, servings = None\<rparr> (Fin (3518440727320409 / 35184372088832)) (Fin 0) None ''same cuisine'' = Inl errs"
    using t [where sim = "Fin (3518440727320409 / 35184372088832)" and hlth = "Fin 0"
        and rel = None] above
    by blast
  moreover have "\<exists>errs. RecipeRecommendation_construct
      
        \<lparr>basic_id = ''67890'', basic_name = ''Healthy Chicken Tikka'',
        basic_cuisine = Some ''Indian'', basic_diet_type = None,
        basic_ingredients = [''chicken'', ''yogurt''], instructions = None,
        prep_time = None, cook_time = None, servings = None\<rparr> (Fin 100) (Fin (- 3602879701896397 / 36028797018963968)) None ''same cuisine'' =
        Inl errs"
    using t [where sim = "Fin 100" and hlth = "Fin (- 3602879701896397 / 36028797018963968)"
        and rel = None] below
    by blast
  moreover have "\<exists>errs. RecipeRecommendation_construct
      
        \<lparr>basic_id = ''67890'', basic_name = ''Healthy Chicken Tikka'',
        basic_cuisine = Some ''Indian'', basic_diet_type = None,
        basic_ingredients = [''chicken'', ''yogurt''], instructions = None,
        prep_time = None, cook_time = None, servings = None\<rparr> (Fin 0) (Fin 0) (Some (Fin (- 3602879701896397 / 36028797018963968)))
        ''same cuisine'' = Inl errs"
    using t [where sim = "Fin 0" and hlth = "Fin 0"
        and rel = "Some (Fin (- 3602879701896397 / 36028797018963968))"] below
    by blast
  ultimately show ?thesis by (intro conjI)
qed

end
